theory Spec2Isabelle
  imports Main
begin

section \<open>JavaScript strings\<close>

text \<open>
  A terminal line is a JavaScript string. It is modelled as a \<open>string\<close>: a list of
  code units below 256. \<open>line[i]\<close> is \<open>undefined\<close> beyond the end of the line,
  \<open>line.substr(n)\<close> is the rest of the line from index \<open>n\<close> (empty when the line is
  shorter), and \<open>s.split(' ')\<close> cuts at every single space and always yields at least
  one piece.
\<close>

definition escape_marker :: char where
  "escape_marker = CHR 0x5C"

definition char_at :: "string \<Rightarrow> nat \<Rightarrow> char option" where
  "char_at s i = (if i < length s then Some (s ! i) else None)"

definition substr :: "string \<Rightarrow> nat \<Rightarrow> string" where
  "substr s n = drop n s"

fun split_space :: "string \<Rightarrow> string list" where
  "split_space [] = [[]]"
| "split_space (c # cs) =
     (if c = CHR '' '' then [] # split_space cs
      else (case split_space cs of
              [] \<Rightarrow> [[c]]
            | w # ws \<Rightarrow> (c # w) # ws))"

text \<open>
  White space as \<open>String.prototype.trim\<close> and \<open>parseInt\<close> see it, among the code units
  below 256: tab, line feed, vertical tab, form feed, carriage return, space and
  no-break space.
\<close>

definition is_white_space :: "char \<Rightarrow> bool" where
  "is_white_space c = (of_char c \<in> {9, 10, 11, 12, 13, 32, 160 :: nat})"

definition trim :: "string \<Rightarrow> string" where
  "trim s = rev (dropWhile is_white_space (rev (dropWhile is_white_space s)))"

text \<open>
  The values a command parameter and the stored OAuth kind range over:
  \<open>undefined\<close> (a missing argument), \<open>null\<close> (the constructor's initial kind) or a
  string. \<open>to_string\<close> is the conversion that string concatenation applies.
\<close>

datatype jsval = Undefined | Null | Str string

fun to_string :: "jsval \<Rightarrow> string" where
  "to_string Undefined = ''undefined''"
| "to_string Null = ''null''"
| "to_string (Str s) = s"

section \<open>JavaScript numbers, \<open>parseInt\<close> and \<open>JSON.stringify\<close>\<close>

text \<open>
  \<open>parseInt\<close> yields \<open>NaN\<close>, an infinity, or a double whose value is an integer.
  A finite result is kept as that integer; the two zeros are not told apart, since
  \<open>JSON.stringify\<close> prints both as \<open>0\<close>.
\<close>

datatype jsnumber = NaN | Infinity | NegInfinity | Finite int

fun bit_length :: "nat \<Rightarrow> nat" where
  "bit_length n = (if n = 0 then 0 else Suc (bit_length (n div 2)))"

declare bit_length.simps [simp del]

text \<open>
  The double nearest to a natural number, ties to the even significand (53 bits),
  with the exponent left unbounded; \<open>to_number\<close> turns a result of \<open>2 ^ 1024\<close> or
  more into an infinity.
\<close>

definition round_double :: "nat \<Rightarrow> nat" where
  "round_double m =
     (if m < 2 ^ 53 then m
      else let e = bit_length m - 53;
               q = m div 2 ^ e;
               r = m mod 2 ^ e;
               h = 2 ^ (e - 1)
           in (if r > h \<or> (r = h \<and> odd q) then q + 1 else q) * 2 ^ e)"

definition to_number :: "int \<Rightarrow> jsnumber" where
  "to_number z =
     (let r = round_double (nat \<bar>z\<bar>)
      in if r \<ge> 2 ^ 1024 then (if z < 0 then NegInfinity else Infinity)
         else Finite (if z < 0 then - int r else int r))"

definition digit_of :: "char \<Rightarrow> nat option" where
  "digit_of c =
     (let n = (of_char c :: nat)
      in if 48 \<le> n \<and> n \<le> 57 then Some (n - 48)
         else if 97 \<le> n \<and> n \<le> 122 then Some (n - 87)
         else if 65 \<le> n \<and> n \<le> 90 then Some (n - 55)
         else None)"

definition is_digit :: "nat \<Rightarrow> char \<Rightarrow> bool" where
  "is_digit radix c = (case digit_of c of None \<Rightarrow> False | Some d \<Rightarrow> d < radix)"

definition digits_value :: "nat \<Rightarrow> string \<Rightarrow> nat" where
  "digits_value radix z =
     foldl (\<lambda>acc c. acc * radix + (case digit_of c of None \<Rightarrow> 0 | Some d \<Rightarrow> d)) 0 z"

text \<open>
  \<open>parseInt(s)\<close> with no radix: skip leading white space, take a sign, take a
  \<open>0x\<close>/\<open>0X\<close> prefix as radix 16, read the longest run of digits; no digit gives
  \<open>NaN\<close>. The integer read is converted to the nearest double.
\<close>

definition strip_sign :: "string \<Rightarrow> bool \<times> string" where
  "strip_sign s =
     (case s of
        [] \<Rightarrow> (False, s)
      | c # r \<Rightarrow>
          if c = CHR ''-'' then (True, r)
          else if c = CHR ''+'' then (False, r)
          else (False, s))"

definition strip_prefix :: "string \<Rightarrow> nat \<times> string" where
  "strip_prefix s =
     (case s of
        a # b # r \<Rightarrow>
          if a = CHR ''0'' \<and> (b = CHR ''x'' \<or> b = CHR ''X'') then (16, r) else (10, s)
      | _ \<Rightarrow> (10, s))"

definition parseInt :: "string \<Rightarrow> jsnumber" where
  "parseInt s =
     (let signed = strip_sign (dropWhile is_white_space s);
          based = strip_prefix (snd signed);
          z = takeWhile (is_digit (fst based)) (snd based)
      in if z = [] then NaN
         else to_number
                (if fst signed then - int (digits_value (fst based) z)
                 else int (digits_value (fst based) z)))"

text \<open>Decimal digits of a natural number and of an integer.\<close>

definition digit_char :: "nat \<Rightarrow> char" where
  "digit_char d = ''0123456789'' ! d"

fun show_nat :: "nat \<Rightarrow> string" where
  "show_nat n = (if n < 10 then [digit_char n] else show_nat (n div 10) @ [digit_char (n mod 10)])"

declare show_nat.simps [simp del]

definition show_int :: "int \<Rightarrow> string" where
  "show_int z = (if z < 0 then CHR ''-'' # show_nat (nat (- z)) else show_nat (nat z))"

text \<open>
  \<open>Number::toString\<close> of a positive double \<open>m\<close> with an integer value prints the
  decimal with the fewest significant digits that still converts back to \<open>m\<close>.
  With \<open>k\<close> significant digits the candidates are \<open>m\<close> cut to its leading \<open>k\<close>
  digits and the next such number; where both convert back to \<open>m\<close> the closer one
  is taken (the even one at equal distance). At \<open>k\<close> equal to the number of digits
  of \<open>m\<close> the first candidate is \<open>m\<close> itself.
\<close>

definition candidates :: "nat \<Rightarrow> nat \<Rightarrow> nat list" where
  "candidates m k =
     (let p = 10 ^ (length (show_nat m) - k); lo = m div p
      in filter (\<lambda>v. round_double v = m) [lo * p, (lo + 1) * p])"

definition closest :: "nat \<Rightarrow> nat \<Rightarrow> nat \<Rightarrow> nat \<Rightarrow> nat" where
  "closest m p a b =
     (if m - a < b - m then a
      else if b - m < m - a then b
      else if even (a div p) then a else b)"

function shortest_from :: "nat \<Rightarrow> nat \<Rightarrow> nat" where
  "shortest_from m k =
     (if length (show_nat m) \<le> k then m
      else (case candidates m k of
              [] \<Rightarrow> shortest_from m (Suc k)
            | [v] \<Rightarrow> v
            | a # b # _ \<Rightarrow> closest m (10 ^ (length (show_nat m) - k)) a b))"
  by pat_completeness auto
termination
  by (relation "measure (\<lambda>(m, k). length (show_nat m) - k)") auto

declare shortest_from.simps [simp del]

definition shortest_decimal :: "nat \<Rightarrow> nat" where
  "shortest_decimal m = shortest_from m 1"

definition strip_zeros :: "string \<Rightarrow> string" where
  "strip_zeros ds = rev (dropWhile (\<lambda>c. c = CHR ''0'') (rev ds))"

definition nat_to_string :: "nat \<Rightarrow> string" where
  "nat_to_string m =
     (if m = 0 then ''0''
      else let ds = show_nat (shortest_decimal m)
           in if length ds \<le> 21 then ds
              else (case strip_zeros ds of
                      [] \<Rightarrow> ds
                    | d # fs \<Rightarrow>
                        d # (if fs = [] then [] else CHR ''.'' # fs)
                          @ ''e+'' @ show_nat (length ds - 1)))"

text \<open>
  \<open>JSON.stringify\<close> on the values the program serializes: numbers, strings and
  objects. \<open>NaN\<close> and the infinities are printed as \<open>null\<close>; a string is quoted with
  its quotes, backslashes and control characters escaped.
\<close>

datatype json = JNumber jsnumber | JString string | JObject "(string \<times> json) list"

fun number_to_json :: "jsnumber \<Rightarrow> string" where
  "number_to_json NaN = ''null''"
| "number_to_json Infinity = ''null''"
| "number_to_json NegInfinity = ''null''"
| "number_to_json (Finite z) =
     (if z < 0 then CHR ''-'' # nat_to_string (nat (- z)) else nat_to_string (nat z))"

definition hex_digit :: "nat \<Rightarrow> char" where
  "hex_digit d = ''0123456789abcdef'' ! d"

definition escape_char :: "char \<Rightarrow> string" where
  "escape_char c =
     (let n = (of_char c :: nat)
      in if c = CHR 0x22 then [escape_marker, CHR 0x22]
         else if c = escape_marker then [escape_marker, escape_marker]
         else if n = 8 then [escape_marker, CHR ''b'']
         else if n = 9 then [escape_marker, CHR ''t'']
         else if n = 10 then [escape_marker, CHR ''n'']
         else if n = 12 then [escape_marker, CHR ''f'']
         else if n = 13 then [escape_marker, CHR ''r'']
         else if n < 32 then [escape_marker, CHR ''u'', CHR ''0'', CHR ''0'',
                              hex_digit (n div 16), hex_digit (n mod 16)]
         else [c])"

definition quote :: "string \<Rightarrow> string" where
  "quote s = CHR 0x22 # concat (map escape_char s) @ [CHR 0x22]"

fun join_with :: "string \<Rightarrow> string list \<Rightarrow> string" where
  "join_with sep [] = []"
| "join_with sep [x] = x"
| "join_with sep (x # y # ys) = x @ sep @ join_with sep (y # ys)"

fun JSON_stringify :: "json \<Rightarrow> string"
  and stringify_members :: "(string \<times> json) list \<Rightarrow> string list" where
  "JSON_stringify (JNumber x) = number_to_json x"
| "JSON_stringify (JString s) = quote s"
| "JSON_stringify (JObject ms) = ''{'' @ join_with '','' (stringify_members ms) @ ''}''"
| "stringify_members [] = []"
| "stringify_members ((k, v) # ms) = (quote k @ '':'' @ JSON_stringify v) # stringify_members ms"

section \<open>Collaborators and terminal effects\<close>

record app =
  app_uniqueId :: string
  app_name :: string
  app_description :: string

record device =
  dev_uniqueId :: string
  dev_kind :: string
  dev_name :: string
  dev_description :: string

record permission =
  perm_uniqueId :: string
  perm_code :: string
  perm_description :: string

text \<open>
  The OAuth session is an opaque key-value object; the constructor stores the empty
  object \<open>{}\<close>. The request record is the object literal built by
  \<open>complete-oauth\<close>.
\<close>

type_synonym session = "(string \<times> string) list"

record request =
  httpVersion :: string
  headers :: "string list"
  rawHeaders :: "string list"
  http_method :: string
  url :: string
  query :: "(string \<times> string) list"
  session :: session

text \<open>
  What the synchronous operations of the collaborators answer during one turn of the
  event loop. \<open>url_query u\<close> stands for \<open>Url.parse(u, true).query\<close> of Node's
  \<open>url\<close> module on a string.
\<close>

record collaborators =
  getAllPermissions :: "permission list"
  getIdentities :: "string list"
  getAllApps :: "app list"
  getApp :: "jsval \<Rightarrow> app option"
  getAllDevices :: "device list"
  url_query :: "string \<Rightarrow> (string \<times> string) list"

datatype filter_value = FString string | FNumber int

type_synonym filter = "string \<times> string \<times> filter_value"

datatype ibase_call =
    Query "string list" "filter list"
  | GetCount "filter list"
  | GetMax string "filter list"
  | GetMin string "filter list"
  | GetSum string "filter list"
  | GetAvg string "filter list"
  | GetArgmax "string list" string "filter list"
  | GetArgmin "string list" string "filter list"

datatype call =
    ConversationStart
  | HandleCommand string
  | HandleParsedCommand string
  | HandleThingTalk string
  | GetAllPermissions
  | RemovePermission jsval
  | GetIdentities
  | GetAccountForIdentity jsval
  | SearchAccountByName jsval
  | GetAllApps
  | GetApp jsval
  | RemoveApp app
  | GetAllDevices
  | RunOAuth2 jsval "request option"
  | Ibase ibase_call
  | RlClose
  | EngineClose
  | PlatformExit

text \<open>
  Everything the program does to the outside, in order: a line written with
  \<open>console.log\<close>, a call of \<open>rl.prompt()\<close>, a call into a collaborator.
\<close>

datatype effect = Print string | Prompt | Call call

datatype err = TypeError string | Failure string

section \<open>Deferred results\<close>

text \<open>
  A collaborator call that returns a deferred result starts a task. The task records
  the callback the handler registered with \<open>then\<close> and how the promise chain ends:
  dropped by the handler, closed by the handler with \<open>done()\<close>, or returned to
  \<open>_onLine\<close>, which appends \<open>.then(() => rl.prompt()).done()\<close>. A task settles
  in a later turn of the event loop.
\<close>

datatype callback = NoCallback | LogResult | StoreSession | LogAccounts | Exit

datatype chain_end = Dropped | Done | PromptThenDone

record task =
  callback :: callback
  chain_end :: chain_end
  pending :: bool

datatype payload =
    Nothing
  | Text string
  | Redirect string session
  | Accounts "(string \<times> string) list"

datatype outcome = Fulfilled payload | Rejected err

record state =
  oauthKind :: jsval
  oauthSession :: session
  trace :: "effect list"
  tasks :: "task list"
  closed :: bool
  uncaught :: "err list"
  exited :: bool

text \<open>What a handler hands back to \<open>Q.try\<close>: \<open>undefined\<close>, a deferred result, or an exception.\<close>

datatype result = Returned "nat option" | Thrown err

definition emit :: "effect \<Rightarrow> state \<Rightarrow> state" where
  "emit e s = s\<lparr>trace := trace s @ [e]\<rparr>"

definition console_log :: "string \<Rightarrow> state \<Rightarrow> state" where
  "console_log x s = emit (Print x) s"

definition console_log_all :: "string list \<Rightarrow> state \<Rightarrow> state" where
  "console_log_all xs s = foldl (\<lambda>s x. console_log x s) s xs"

definition deferred :: "call \<Rightarrow> callback \<Rightarrow> state \<Rightarrow> nat \<times> state" where
  "deferred c k s =
     (length (tasks s),
      (emit (Call c) s)\<lparr>tasks := tasks s @ [\<lparr>callback = k, chain_end = Dropped, pending = True\<rparr>]\<rparr>)"

definition set_chain_end :: "nat \<Rightarrow> chain_end \<Rightarrow> state \<Rightarrow> state" where
  "set_chain_end i e s =
     (if i < length (tasks s) then s\<lparr>tasks := (tasks s)[i := (tasks s ! i)\<lparr>chain_end := e\<rparr>]\<rparr> else s)"

definition returning :: "nat \<times> state \<Rightarrow> result \<times> state" where
  "returning p = (Returned (Some (fst p)), snd p)"

section \<open>The command handlers\<close>

text \<open>
  \<open>_quit\<close>: the farewell, \<open>rl.close()\<close>, then \<open>engine.close()\<close> whose chain is
  \<open>.then(() => platform.exit()).done()\<close>.
\<close>

definition quit :: "state \<Rightarrow> state" where
  "quit s =
     (let s1 = console_log (''Bye'' @ [CHR 0x0A]) s;
          s2 = (emit (Call RlClose) s1)\<lparr>closed := True\<rparr>;
          p = deferred EngineClose Exit s2
      in set_chain_end (fst p) Done (snd p))"

definition help_text :: "string list" where
  "help_text =
     [''Available commands:'',
      escape_marker # ''q : quit'',
      escape_marker # ''r <json> : send json to Almond'',
      escape_marker # ''c <number> : make a choice'',
      escape_marker # ''t <code> : send ThingTalk to Almond'',
      escape_marker # ''m self : print own messaging identities'',
      escape_marker # ''m identity <identity> : lookup messaging identity, save to contacts'',
      escape_marker # ''m search <name> : list contacts by name'',
      escape_marker # ''a list : list apps'',
      escape_marker # ''a stop <uuid> : stop app'',
      escape_marker # ''d list : list devices'',
      escape_marker # ''d start-oauth <kind> : start oauth'',
      escape_marker # ''d complete-oauth <url> : finish oauth'',
      escape_marker # ''p list : list permissions'',
      escape_marker # ''p revoke <uuid> : revoke permissions'',
      escape_marker # ''l: test the log system'',
      escape_marker # ''? or '' @ escape_marker # ''h : show this help'',
      ''Any other command is interpreted as an English sentence and sent to Almond'']"

definition show_help :: "state \<Rightarrow> state" where
  "show_help s = console_log_all help_text s"

definition runPermissionCommand :: "collaborators \<Rightarrow> jsval \<Rightarrow> jsval \<Rightarrow> state \<Rightarrow> result \<times> state" where
  "runPermissionCommand env cmd param s =
     (if cmd = Str ''list'' then
        (Returned None,
         console_log_all
           (map (\<lambda>p. ''- '' @ perm_uniqueId p @ '': '' @ perm_code p @ '' : '' @ perm_description p)
                (getAllPermissions env))
           (emit (Call GetAllPermissions) s))
      else if cmd = Str ''revoke'' then
        (Returned None, emit (Call (RemovePermission param)) s)
      else (Returned None, s))"

definition runMessagingCommand :: "collaborators \<Rightarrow> jsval \<Rightarrow> jsval \<Rightarrow> state \<Rightarrow> result \<times> state" where
  "runMessagingCommand env cmd param s =
     (if cmd = Str ''self'' then
        (Returned None, console_log_all (getIdentities env) (emit (Call GetIdentities) s))
      else if cmd = Str ''identity'' then
        returning (deferred (GetAccountForIdentity param) LogResult s)
      else if cmd = Str ''search'' then
        returning (deferred (SearchAccountByName param) LogAccounts s)
      else (Returned None, s))"

definition runAppCommand :: "collaborators \<Rightarrow> jsval \<Rightarrow> jsval \<Rightarrow> state \<Rightarrow> result \<times> state" where
  "runAppCommand env cmd param s =
     (if cmd = Str ''list'' then
        (Returned None,
         console_log_all
           (map (\<lambda>a. ''- '' @ app_uniqueId a @ '' '' @ app_name a @ '': '' @ app_description a)
                (getAllApps env))
           (emit (Call GetAllApps) s))
      else if cmd = Str ''stop'' then
        (case getApp env param of
           None \<Rightarrow>
             (Returned None,
              console_log (''No app with ID '' @ to_string param) (emit (Call (GetApp param)) s))
         | Some a \<Rightarrow>
             (Returned None, emit (Call (RemoveApp a)) (emit (Call (GetApp param)) s)))
      else (Returned None, s))"

text \<open>
  \<open>Url.parse\<close> throws a \<open>TypeError\<close> when its argument is not a string, which is
  the case of \<open>complete-oauth\<close> given no URL. The message names the parameter in
  double quotes and ends with \<open>typeof\<close> of the argument.
\<close>

fun js_typeof :: "jsval \<Rightarrow> string" where
  "js_typeof Undefined = ''undefined''"
| "js_typeof Null = ''object''"
| "js_typeof (Str s) = ''string''"

definition Url_parse_query :: "collaborators \<Rightarrow> jsval \<Rightarrow> err + string \<times> (string \<times> string) list" where
  "Url_parse_query env param =
     (case param of
        Str u \<Rightarrow> Inr (u, url_query env u)
      | _ \<Rightarrow>
          Inl (TypeError (''Parameter '' @ [CHR 0x22] @ ''url'' @ [CHR 0x22]
                 @ '' must be a string, not '' @ js_typeof param)))"

definition runDeviceCommand :: "collaborators \<Rightarrow> jsval \<Rightarrow> jsval \<Rightarrow> state \<Rightarrow> result \<times> state" where
  "runDeviceCommand env cmd param s =
     (if cmd = Str ''list'' then
        (Returned None,
         console_log_all
           (map (\<lambda>d. ''- '' @ dev_uniqueId d @ '' ('' @ dev_kind d @ '') '' @ dev_name d
                       @ '': '' @ dev_description d)
                (getAllDevices env))
           (emit (Call GetAllDevices) s))
      else if cmd = Str ''start-oauth'' \<or> cmd = Str ''start-oauth2'' then
        returning (deferred (RunOAuth2 param None) StoreSession (s\<lparr>oauthKind := param\<rparr>))
      else if cmd = Str ''complete-oauth'' \<or> cmd = Str ''complete-oauth2'' then
        (case Url_parse_query env param of
           Inl e \<Rightarrow> (Thrown e, s)
         | Inr (u, q) \<Rightarrow>
             returning
               (deferred
                  (RunOAuth2 (oauthKind s)
                     (Some \<lparr>httpVersion = ''1.0'', headers = [], rawHeaders = [],
                            http_method = ''GET'', url = u, query = q,
                            session = oauthSession s\<rparr>))
                  NoCallback s))
      else (Returned None, s))"

text \<open>
  \<open>_testLog\<close> starts eight queries, each with a callback that logs the result, and
  has no \<open>return\<close> statement.
\<close>

definition testLog_queries :: "ibase_call list" where
  "testLog_queries =
     [Query [''wind_speed'', ''location''] [(''weather'', ''='', FString ''Partly cloud'')],
      GetCount [(''wind_speed'', ''>'', FNumber 1)],
      GetMax ''wind_speed'' [],
      GetMin ''wind_speed'' [],
      GetSum ''wind_speed'' [],
      GetAvg ''wind_speed'' [],
      GetArgmax [''location'', ''weather''] ''wind_speed'' [],
      GetArgmin [''location'', ''weather''] ''wind_speed'' []]"

definition testLog :: "state \<Rightarrow> result \<times> state" where
  "testLog s = (Returned None, foldl (\<lambda>s q. snd (deferred (Ibase q) LogResult s)) s testLog_queries)"

section \<open>Dispatch of one line\<close>

text \<open>
  The conditions of the \<open>if\<close> chain of \<open>_onLine\<close>, in the order of the source. The
  second disjunct of the help test compares the whole line with \<open>h\<close>.
\<close>

datatype verb =
  Quit | Help | Raw | ThingTalk | Choice | App | Device | Messaging | Permission | Diagnostic

datatype route = Meta verb | UnknownCommand "char option" | NaturalLanguage | NoOp

definition classify :: "string \<Rightarrow> route" where
  "classify line =
     (if char_at line 0 = Some escape_marker then
        (if char_at line 1 = Some CHR ''q'' then Meta Quit
         else if char_at line 1 = Some CHR ''?'' \<or> line = ''h'' then Meta Help
         else if char_at line 1 = Some CHR ''r'' then Meta Raw
         else if char_at line 1 = Some CHR ''t'' then Meta ThingTalk
         else if char_at line 1 = Some CHR ''c'' then Meta Choice
         else if char_at line 1 = Some CHR ''a'' then Meta App
         else if char_at line 1 = Some CHR ''d'' then Meta Device
         else if char_at line 1 = Some CHR ''m'' then Meta Messaging
         else if char_at line 1 = Some CHR ''p'' then Meta Permission
         else if char_at line 1 = Some CHR ''l'' then Meta Diagnostic
         else UnknownCommand (char_at line 1))
      else if trim line \<noteq> [] then NaturalLanguage
      else NoOp)"

text \<open>
  \<open>...line.substr(3).split(' ')\<close>: the first piece is the sub-command, the second
  one the parameter, \<open>undefined\<close> when there is none; further pieces are ignored.
\<close>

definition spread_args :: "string \<Rightarrow> jsval \<times> jsval" where
  "spread_args line =
     (case split_space (substr line 3) of
        [] \<Rightarrow> (Undefined, Undefined)
      | [c] \<Rightarrow> (Str c, Undefined)
      | c # p # _ \<Rightarrow> (Str c, Str p))"

definition choice_answer :: "string \<Rightarrow> string" where
  "choice_answer arg =
     JSON_stringify
       (JObject [(''answer'',
          JObject [(''type'', JString ''Choice''), (''value'', JNumber (parseInt arg))])])"

definition dispatch :: "collaborators \<Rightarrow> string \<Rightarrow> state \<Rightarrow> result \<times> state" where
  "dispatch env line s =
     (case classify line of
        Meta Quit \<Rightarrow> (Returned None, quit s)
      | Meta Help \<Rightarrow> (Returned None, show_help s)
      | Meta Raw \<Rightarrow> returning (deferred (HandleParsedCommand (substr line 3)) NoCallback s)
      | Meta ThingTalk \<Rightarrow> returning (deferred (HandleThingTalk (substr line 3)) NoCallback s)
      | Meta Choice \<Rightarrow>
          returning (deferred (HandleParsedCommand (choice_answer (substr line 3))) NoCallback s)
      | Meta App \<Rightarrow> runAppCommand env (fst (spread_args line)) (snd (spread_args line)) s
      | Meta Device \<Rightarrow> runDeviceCommand env (fst (spread_args line)) (snd (spread_args line)) s
      | Meta Messaging \<Rightarrow>
          runMessagingCommand env (fst (spread_args line)) (snd (spread_args line)) s
      | Meta Permission \<Rightarrow>
          runPermissionCommand env (fst (spread_args line)) (snd (spread_args line)) s
      | Meta Diagnostic \<Rightarrow> testLog s
      | UnknownCommand c \<Rightarrow>
          (Returned None,
           console_log (''Unknown command '' @ (case c of None \<Rightarrow> ''undefined'' | Some x \<Rightarrow> [x])) s)
      | NaturalLanguage \<Rightarrow> returning (deferred (HandleCommand line) NoCallback s)
      | NoOp \<Rightarrow> (Returned None, s))"

section \<open>The session loop\<close>

text \<open>
  \<open>_onLine\<close> is \<open>Q.try(f).then(() => rl.prompt()).done()\<close>, where \<open>f\<close> is the
  dispatch of the line. Q runs \<open>f\<close>, and the callbacks that are ready, from its queue
  in the turn of the event loop in which the line arrived, before the next input is
  looked at; the model takes each line as arriving in a turn of its own and that turn
  as one step. When \<open>f\<close> returns no deferred result the prompt callback runs in that
  turn. When \<open>f\<close> returns a deferred result the chain hangs on its task. When \<open>f\<close>
  throws, \<open>Q.try\<close> turns the exception into a rejection: the prompt callback is
  skipped and \<open>done()\<close> rethrows the error outside the chain, where nothing catches
  it.
\<close>

definition onLine :: "collaborators \<Rightarrow> string \<Rightarrow> state \<Rightarrow> state" where
  "onLine env line s =
     (case dispatch env line s of
        (Thrown e, s1) \<Rightarrow> s1\<lparr>uncaught := uncaught s1 @ [e]\<rparr>
      | (Returned None, s1) \<Rightarrow> emit Prompt s1
      | (Returned (Some i), s1) \<Rightarrow> set_chain_end i PromptThenDone s1)"

text \<open>
  The constructor stores kind \<open>null\<close> and the empty session; \<open>interact\<close> starts the
  conversation, registers \<open>_onLine\<close> for every line and \<open>_quit\<close> for the interrupt,
  and draws the first prompt.
\<close>

definition constructor :: state where
  "constructor =
     \<lparr>oauthKind = Null, oauthSession = [], trace = [], tasks = [], closed = False,
      uncaught = [], exited = False\<rparr>"

definition interact :: "state \<Rightarrow> state" where
  "interact s = emit Prompt (emit (Call ConversationStart) s)"

text \<open>
  The callbacks registered by the handlers. A deferred result is fulfilled with a value
  of the shape its callback reads: a value to log (given by its printed form), the pair
  of redirect and session, a list of accounts (name and account). A fulfilment of
  another shape is outside the interface of the collaborators and is not an event of
  the model: \<open>settle\<close> leaves the state as it is.
\<close>

fun accepts :: "callback \<Rightarrow> payload \<Rightarrow> bool" where
  "accepts NoCallback v = True"
| "accepts Exit v = True"
| "accepts LogResult (Text t) = True"
| "accepts StoreSession (Redirect r sess) = True"
| "accepts LogAccounts (Accounts as) = True"
| "accepts k v = False"

fun run_callback :: "callback \<Rightarrow> payload \<Rightarrow> state \<Rightarrow> state" where
  "run_callback LogResult (Text t) s = console_log t s"
| "run_callback StoreSession (Redirect r sess) s = console_log r (s\<lparr>oauthSession := sess\<rparr>)"
| "run_callback LogAccounts (Accounts as) s =
     console_log_all (map (\<lambda>a. fst a @ '': '' @ snd a) as) s"
| "run_callback Exit v s = (emit (Call PlatformExit) s)\<lparr>exited := True\<rparr>"
| "run_callback k v s = s"

text \<open>
  Settling task \<open>i\<close>. A rejection skips every callback of the chain; a chain that ends
  in \<open>done()\<close> rethrows it, a dropped chain loses it. A fulfilment runs the handler's
  callback and then, on a chain returned to \<open>_onLine\<close>, draws the prompt.
\<close>

definition settle :: "nat \<Rightarrow> outcome \<Rightarrow> state \<Rightarrow> state" where
  "settle i out s =
     (if i < length (tasks s) \<and> pending (tasks s ! i) then
        (let t = tasks s ! i;
             s1 = s\<lparr>tasks := (tasks s)[i := t\<lparr>pending := False\<rparr>]\<rparr>
         in case out of
              Rejected e \<Rightarrow>
                (if chain_end t = Dropped then s1 else s1\<lparr>uncaught := uncaught s1 @ [e]\<rparr>)
            | Fulfilled v \<Rightarrow>
                (if accepts (callback t) v then
                   (let s2 = run_callback (callback t) v s1
                    in if chain_end t = PromptThenDone then emit Prompt s2 else s2)
                 else s))
      else s)"

text \<open>
  The events of a session: a line arrives from the terminal, the terminal sends the
  interrupt, a task settles. The line listener stays registered from \<open>interact\<close> until
  \<open>rl.close()\<close>; nothing removes or pauses it while a task is pending. After
  \<open>platform.exit()\<close> nothing happens any more. An error rethrown by \<open>done()\<close> is
  recorded in \<open>uncaught\<close> and the model goes on: whether the process survives an
  uncaught exception is decided by the host, outside this program.
\<close>

datatype event = Line collaborators string | Sigint | Settle nat outcome

definition step :: "event \<Rightarrow> state \<Rightarrow> state" where
  "step ev s =
     (if exited s then s
      else (case ev of
              Line env l \<Rightarrow> if closed s then s else onLine env l s
            | Sigint \<Rightarrow> if closed s then s else quit s
            | Settle i out \<Rightarrow> settle i out s))"

definition run :: "event list \<Rightarrow> state \<Rightarrow> state" where
  "run evs s = fold step evs s"

text \<open>
  Measures of a state: the prompts drawn so far, the tasks still pending, and among
  these the ones whose chain ends in the prompt callback of \<open>_onLine\<close>. An event list
  is measured by the lines it carries.
\<close>

definition prompts :: "state \<Rightarrow> nat" where
  "prompts s = length (filter (\<lambda>e. e = Prompt) (trace s))"

definition in_flight :: "state \<Rightarrow> nat" where
  "in_flight s = length (filter pending (tasks s))"

definition awaited_task :: "task \<Rightarrow> bool" where
  "awaited_task t = (pending t \<and> chain_end t = PromptThenDone)"

definition awaited :: "state \<Rightarrow> nat" where
  "awaited s = length (filter awaited_task (tasks s))"

fun is_line :: "event \<Rightarrow> bool" where
  "is_line (Line env l) = True"
| "is_line ev = False"

definition lines_read :: "event list \<Rightarrow> nat" where
  "lines_read evs = length (filter is_line evs)"

text \<open>
  Collaborators for concrete runs: nothing to list and no app under any id.
  \<open>url_query\<close> is given at the callback URL the runs use, \<open>http://cb/?code=1\<close>,
  whose query is \<open>{code: '1'}\<close>.
\<close>

definition idle_engine :: collaborators where
  "idle_engine =
     \<lparr>getAllPermissions = [], getIdentities = [], getAllApps = [], getApp = (\<lambda>_. None),
      getAllDevices = [],
      url_query = (\<lambda>u. if u = ''http://cb/?code=1'' then [(''code'', ''1'')] else [])\<rparr>"

text \<open>The second characters that the \<open>if\<close> chain of \<open>_onLine\<close> tests for.\<close>

definition verb_letters :: string where
  "verb_letters = ''q?rtcadmpl''"

text \<open>
  A meta-command line as the help text writes it: the escape marker, the verb letter,
  a space, the sub-command, a space, the parameter.
\<close>

definition command_line :: "char \<Rightarrow> string \<Rightarrow> string \<Rightarrow> string" where
  "command_line v sub arg = escape_marker # v # CHR '' '' # sub @ CHR '' '' # arg"




text \<open>
  The serialization of the structured answer
  \<open>{answer: {type: "Choice", value: N}}\<close> as the specification gives it, with \<open>N\<close>
  in decimal.
\<close>

definition dq :: "string \<Rightarrow> string" where
  "dq s = CHR 0x22 # s @ [CHR 0x22]"

definition choice_json :: "int \<Rightarrow> string" where
  "choice_json n =
     ''{'' @ dq ''answer'' @ '':{'' @ dq ''type'' @ '':'' @ dq ''Choice'' @ '','' @ dq ''value''
       @ '':'' @ show_int n @ ''}}''"

section \<open>Auxiliary facts\<close>

lemmas handler_defs =
  emit_def console_log_def console_log_all_def deferred_def set_chain_end_def returning_def

lemmas eval_defs =
  run_def step_def interact_def constructor_def onLine_def dispatch_def classify_def char_at_def
  escape_marker_def spread_args_def substr_def settle_def trim_def is_white_space_def command_line_def

subsection \<open>Lines and their arguments\<close>

lemma dropWhile_all: "(\<forall>x \<in> set (dropWhile P xs). P x) \<longleftrightarrow> (\<forall>x \<in> set xs. P x)"
  by (induction xs) auto

lemma trim_empty_iff: "trim line = [] \<longleftrightarrow> (\<forall>c \<in> set line. is_white_space c)"
  by (simp add: trim_def dropWhile_eq_Nil_conv dropWhile_all)

lemma trim_empty_no_escape: "trim line = [] \<Longrightarrow> char_at line 0 \<noteq> Some escape_marker"
  by (cases line) (auto simp: trim_empty_iff char_at_def is_white_space_def escape_marker_def)

lemma split_space_no_space: "CHR '' '' \<notin> set w \<Longrightarrow> split_space w = [w]"
  by (induction w) auto

lemma escape_line_is_not_h: "char_at line 0 = Some escape_marker \<Longrightarrow> line \<noteq> ''h''"
  by (auto simp: char_at_def escape_marker_def)

lemma split_space_append:
  "CHR '' '' \<notin> set a \<Longrightarrow> split_space (a @ CHR '' '' # b) = a # split_space b"
  by (induction a) auto

lemma command_line_chars:
  "char_at (command_line v sub arg) 0 = Some escape_marker"
  "char_at (command_line v sub arg) 1 = Some v"
  "char_at (command_line v sub arg) (Suc 0) = Some v"
  by (simp_all add: command_line_def char_at_def)

lemma command_line_args:
  "CHR '' '' \<notin> set sub \<Longrightarrow> CHR '' '' \<notin> set arg \<Longrightarrow>
   spread_args (command_line v sub arg) = (Str sub, Str arg)"
  by (simp add: command_line_def spread_args_def substr_def split_space_append split_space_no_space)

lemma command_line_not_h: "command_line v sub arg \<noteq> ''h''"
  by (simp add: command_line_def)

lemma dispatch_device_line:
  "CHR '' '' \<notin> set sub \<Longrightarrow> CHR '' '' \<notin> set arg \<Longrightarrow>
   dispatch env (command_line CHR ''d'' sub arg) s = runDeviceCommand env (Str sub) (Str arg) s"
  by (simp add: dispatch_def classify_def command_line_chars command_line_args command_line_not_h)

lemma dispatch_app_line:
  "CHR '' '' \<notin> set sub \<Longrightarrow> CHR '' '' \<notin> set arg \<Longrightarrow>
   dispatch env (command_line CHR ''a'' sub arg) s = runAppCommand env (Str sub) (Str arg) s"
  by (simp add: dispatch_def classify_def command_line_chars command_line_args command_line_not_h)

lemma onLine_start_oauth:
  "CHR '' '' \<notin> set k \<Longrightarrow>
   onLine env (command_line CHR ''d'' ''start-oauth'' k) s =
     s\<lparr>oauthKind := Str k,
       trace := trace s @ [Call (RunOAuth2 (Str k) None)],
       tasks := tasks s @ [\<lparr>callback = StoreSession, chain_end = PromptThenDone, pending = True\<rparr>]\<rparr>"
  by (simp add: onLine_def dispatch_device_line runDeviceCommand_def handler_defs)

lemma onLine_complete_oauth:
  "CHR '' '' \<notin> set u \<Longrightarrow>
   onLine env (command_line CHR ''d'' ''complete-oauth'' u) s =
     s\<lparr>trace := trace s @ [Call (RunOAuth2 (oauthKind s)
         (Some \<lparr>httpVersion = ''1.0'', headers = [], rawHeaders = [], http_method = ''GET'',
                url = u, query = url_query env u, session = oauthSession s\<rparr>))],
       tasks := tasks s @ [\<lparr>callback = NoCallback, chain_end = PromptThenDone, pending = True\<rparr>]\<rparr>"
  by (simp add: onLine_def dispatch_device_line runDeviceCommand_def Url_parse_query_def
      handler_defs)

subsection \<open>What a dispatch changes\<close>

lemma console_log_all_eq: "console_log_all xs s = s\<lparr>trace := trace s @ map Print xs\<rparr>"
  unfolding console_log_all_def
  by (induction xs arbitrary: s) (simp_all add: console_log_def emit_def)

lemma no_prompt_in_prints [simp]: "filter (\<lambda>e. e = Prompt) (map Print xs) = []"
  by (induction xs) simp_all

lemma no_prompt_in_calls [simp]: "filter (\<lambda>e. e = Prompt) (map (\<lambda>q. Call (f q)) xs) = []"
  by (induction xs) simp_all

lemma testLog_eq:
  "testLog s =
     (Returned None,
      s\<lparr>trace := trace s @ map (\<lambda>q. Call (Ibase q)) testLog_queries,
        tasks := tasks s @ replicate 8 \<lparr>callback = LogResult, chain_end = Dropped, pending = True\<rparr>\<rparr>)"
  by (simp add: testLog_def testLog_queries_def handler_defs numeral_eq_Suc)

lemma quit_eq:
  "quit s =
     s\<lparr>trace := trace s @ [Print (''Bye'' @ [CHR 0x0A]), Call RlClose, Call EngineClose],
       tasks := tasks s @ [\<lparr>callback = Exit, chain_end = Done, pending = True\<rparr>],
       closed := True\<rparr>"
  by (simp add: quit_def handler_defs Let_def)

lemmas shape_defs =
  runPermissionCommand_def runMessagingCommand_def runAppCommand_def runDeviceCommand_def
  Url_parse_query_def show_help_def console_log_all_eq testLog_eq quit_eq
  emit_def console_log_def deferred_def returning_def

lemma dispatch_prompts: "prompts (snd (dispatch env l s)) = prompts s"
  by (auto simp: dispatch_def shape_defs prompts_def split: route.splits verb.splits option.splits jsval.splits)

lemma dispatch_awaited: "awaited (snd (dispatch env l s)) = awaited s"
  by (auto simp: dispatch_def shape_defs awaited_def awaited_task_def
      split: route.splits verb.splits option.splits jsval.splits)

lemma dispatch_thrown: "fst (dispatch env l s) = Thrown e \<Longrightarrow> snd (dispatch env l s) = s"
  by (auto simp: dispatch_def shape_defs split: route.splits verb.splits option.splits jsval.splits if_splits)

lemma dispatch_returned:
  "fst (dispatch env l s) = Returned (Some i) \<Longrightarrow>
   i = length (tasks s) \<and>
   (\<exists>k. tasks (snd (dispatch env l s)) =
      tasks s @ [\<lparr>callback = k, chain_end = Dropped, pending = True\<rparr>])"
  by (auto simp: dispatch_def shape_defs split: route.splits verb.splits option.splits jsval.splits if_splits)

subsection \<open>Prompts and awaited operations\<close>

lemma filter_update_drop:
  "i < length xs \<Longrightarrow> \<not> P y \<Longrightarrow>
   length (filter P (xs[i := y])) + (if P (xs ! i) then 1 else 0) = length (filter P xs)"
proof (induction xs arbitrary: i)
  case Nil
  then show ?case by simp
next
  case (Cons x xs)
  then show ?case by (cases i) auto
qed

lemma run_callback_prompts: "prompts (run_callback k v s) = prompts s"
  by (cases "(k, v, s)" rule: run_callback.cases)
    (simp_all add: prompts_def console_log_def emit_def console_log_all_eq)

lemma run_callback_tasks: "tasks (run_callback k v s) = tasks s"
  by (cases "(k, v, s)" rule: run_callback.cases)
    (simp_all add: console_log_def emit_def console_log_all_eq)

lemma settle_accounting: "prompts (settle i out s) + awaited (settle i out s) \<le> prompts s + awaited s"
proof (cases "i < length (tasks s) \<and> pending (tasks s ! i)")
  case False
  then show ?thesis by (auto simp: settle_def)
next
  case True
  let ?t = "tasks s ! i"
  let ?s1 = "s\<lparr>tasks := (tasks s)[i := ?t\<lparr>pending := False\<rparr>]\<rparr>"
  have np: "\<not> awaited_task (?t\<lparr>pending := False\<rparr>)" by (simp add: awaited_task_def)
  have aw: "awaited ?s1 + (if awaited_task ?t then 1 else 0) = awaited s"
    using True filter_update_drop [of i "tasks s" awaited_task, OF _ np] by (simp add: awaited_def)
  have p1: "prompts ?s1 = prompts s" by (simp add: prompts_def)
  show ?thesis
  proof (cases out)
    case (Rejected e)
    then show ?thesis using True aw p1 by (simp add: settle_def Let_def prompts_def awaited_def)
  next
    case (Fulfilled v)
    show ?thesis
    proof (cases "accepts (callback ?t) v")
      case False
      then show ?thesis using True Fulfilled by (simp add: settle_def Let_def)
    next
      case acc: True
      let ?s2 = "run_callback (callback ?t) v ?s1"
      have p2: "prompts ?s2 = prompts s" using p1 by (simp add: run_callback_prompts)
      have a2: "awaited ?s2 = awaited ?s1" by (simp add: awaited_def run_callback_tasks)
      show ?thesis
      proof (cases "chain_end ?t = PromptThenDone")
        case ce: True
        then have "awaited_task ?t" using True by (simp add: awaited_task_def)
        then have "awaited ?s1 + 1 = awaited s" using aw by simp
        moreover have "prompts (emit Prompt ?s2) = prompts s + 1"
          using p2 by (simp add: prompts_def emit_def)
        moreover have "awaited (emit Prompt ?s2) = awaited ?s1"
          using a2 by (simp add: awaited_def emit_def)
        ultimately show ?thesis using True Fulfilled acc ce by (simp add: settle_def Let_def)
      next
        case False
        then show ?thesis using True Fulfilled acc p2 a2 aw by (simp add: settle_def Let_def)
      qed
    qed
  qed
qed

lemma onLine_accounting:
  "prompts (onLine env l s) + awaited (onLine env l s) \<le> prompts s + awaited s + 1"
proof (cases "fst (dispatch env l s)")
  case (Thrown e)
  then show ?thesis
    using dispatch_thrown [OF Thrown]
    by (cases "dispatch env l s") (simp add: onLine_def prompts_def awaited_def)
next
  case (Returned r)
  show ?thesis
  proof (cases r)
    case None
    then show ?thesis
      using Returned dispatch_prompts [of env l s] dispatch_awaited [of env l s]
      by (cases "dispatch env l s") (simp add: onLine_def prompts_def awaited_def emit_def)
  next
    case (Some i)
    then obtain k where "i = length (tasks s)"
      and "tasks (snd (dispatch env l s)) = tasks s @ [\<lparr>callback = k, chain_end = Dropped, pending = True\<rparr>]"
      using dispatch_returned [of env l s i] Returned by auto
    then show ?thesis
      using Returned Some dispatch_prompts [of env l s]
      by (cases "dispatch env l s")
        (simp add: onLine_def prompts_def awaited_def set_chain_end_def awaited_task_def)
  qed
qed

lemma onLine_deferred:
  assumes "fst (dispatch env l s) = Returned (Some i)"
  shows "prompts (onLine env l s) = prompts s \<and> awaited (onLine env l s) = awaited s + 1"
proof -
  obtain k where "i = length (tasks s)"
    and "tasks (snd (dispatch env l s)) = tasks s @ [\<lparr>callback = k, chain_end = Dropped, pending = True\<rparr>]"
    using dispatch_returned [OF assms] by auto
  then show ?thesis
    using assms dispatch_prompts [of env l s]
    by (cases "dispatch env l s")
      (simp add: onLine_def prompts_def awaited_def set_chain_end_def awaited_task_def)
qed

lemma quit_accounting: "prompts (quit s) = prompts s \<and> awaited (quit s) = awaited s"
  by (simp add: quit_eq prompts_def awaited_def awaited_task_def)

lemma step_accounting:
  "prompts (step ev s) + awaited (step ev s) \<le> prompts s + awaited s + (if is_line ev then 1 else 0)"
proof (cases ev)
  case (Line env l)
  then show ?thesis using onLine_accounting [of env l s] by (simp add: step_def)
next
  case Sigint
  then show ?thesis using quit_accounting [of s] by (simp add: step_def)
next
  case (Settle i out)
  then show ?thesis using settle_accounting [of i out s] by (simp add: step_def)
qed

lemma run_accounting:
  "prompts (run evs s) + awaited (run evs s) \<le> prompts s + awaited s + lines_read evs"
proof (induction evs arbitrary: s)
  case Nil
  then show ?case by (simp add: run_def lines_read_def)
next
  case (Cons ev evs)
  have "prompts (run evs (step ev s)) + awaited (run evs (step ev s))
      \<le> prompts (step ev s) + awaited (step ev s) + lines_read evs"
    using Cons.IH [of "step ev s"] .
  also have "\<dots> \<le> prompts s + awaited s + (if is_line ev then 1 else 0) + lines_read evs"
    using step_accounting [of ev s] by simp
  finally show ?case by (auto simp: run_def lines_read_def split: if_splits)
qed

subsection \<open>States in which no pairing has been started\<close>













subsection \<open>Decimal digits, \<open>parseInt\<close> and doubles\<close>

lemma below_ten: "d < 10 \<Longrightarrow> d \<in> {0, 1, 2, 3, 4, 5, 6, 7, 8, 9 :: nat}"
  by auto

lemma digit_of_digit_char: "d < 10 \<Longrightarrow> digit_of (digit_char d) = Some d"
  using below_ten [of d] by (auto simp: digit_of_def digit_char_def)

lemma digit_char_cases: "d < 10 \<Longrightarrow> digit_char d \<in> set ''0123456789''"
  using below_ten [of d] by (auto simp: digit_char_def)

lemma show_nat_digits: "c \<in> set (show_nat n) \<Longrightarrow> c \<in> set ''0123456789''"
proof (induction n rule: show_nat.induct)
  case (1 n)
  show ?case
  proof (cases "n < 10")
    case True
    then show ?thesis using "1.prems" digit_char_cases [of n] by (simp add: show_nat.simps [of n])
  next
    case False
    have "n mod 10 < 10" by simp
    then show ?thesis
      using False "1.prems" "1.IH" digit_char_cases [of "n mod 10"]
      by (auto simp: show_nat.simps [of n])
  qed
qed

lemma show_nat_nonempty: "show_nat n \<noteq> []"
  by (simp add: show_nat.simps [of n])

lemma digits_value_snoc:
  "digits_value r (z @ [c]) = digits_value r z * r + (case digit_of c of None \<Rightarrow> 0 | Some d \<Rightarrow> d)"
  by (simp add: digits_value_def)

lemma digits_value_show_nat: "digits_value 10 (show_nat n) = n"
proof (induction n rule: show_nat.induct)
  case (1 n)
  show ?case
  proof (cases "n < 10")
    case True
    then show ?thesis
      by (simp add: show_nat.simps [of n] digits_value_def digit_of_digit_char)
  next
    case False
    then show ?thesis
      using "1.IH" by (simp add: show_nat.simps [of n] digits_value_snoc digit_of_digit_char)
  qed
qed

lemma decimal_is_digit: "c \<in> set ''0123456789'' \<Longrightarrow> is_digit 10 c"
  by (auto simp: is_digit_def digit_of_def)

lemma decimal_not_space: "c \<in> set ''0123456789'' \<Longrightarrow> \<not> is_white_space c"
  by (auto simp: is_white_space_def)

lemma decimal_not_sign:
  "c \<in> set ''0123456789'' \<Longrightarrow> c \<noteq> CHR ''-'' \<and> c \<noteq> CHR ''+'' \<and> c \<noteq> CHR ''x'' \<and> c \<noteq> CHR ''X''"
  by auto

lemma show_nat_is_digit: "c \<in> set (show_nat n) \<Longrightarrow> is_digit 10 c"
  using show_nat_digits [of c n] decimal_is_digit [of c] by simp

lemma takeWhile_show_nat: "takeWhile (is_digit 10) (show_nat n) = show_nat n"
  by (auto simp: takeWhile_eq_all_conv show_nat_is_digit)

lemma strip_sign_show_nat: "strip_sign (show_nat n) = (False, show_nat n)"
proof (cases "show_nat n")
  case Nil
  then show ?thesis by (simp add: strip_sign_def)
next
  case (Cons a r)
  then have "a \<in> set (show_nat n)" by simp
  then show ?thesis
    using show_nat_digits [of a n] decimal_not_sign [of a] Cons by (simp add: strip_sign_def)
qed

lemma strip_prefix_show_nat: "strip_prefix (show_nat n) = (10, show_nat n)"
proof (cases "show_nat n")
  case Nil
  then show ?thesis by (simp add: strip_prefix_def)
next
  case (Cons a r)
  show ?thesis
  proof (cases r)
    case Nil
    then show ?thesis using Cons by (simp add: strip_prefix_def)
  next
    case (Cons b r')
    then have "b \<in> set (show_nat n)" using \<open>show_nat n = a # r\<close> by simp
    then show ?thesis
      using show_nat_digits [of b n] decimal_not_sign [of b] Cons \<open>show_nat n = a # r\<close>
      by (simp add: strip_prefix_def)
  qed
qed

lemma dropWhile_show_nat: "dropWhile is_white_space (show_nat n) = show_nat n"
proof (cases "show_nat n")
  case Nil
  then show ?thesis by simp
next
  case (Cons a r)
  then have "a \<in> set (show_nat n)" by simp
  then show ?thesis
    using show_nat_digits [of a n] decimal_not_space [of a] Cons by simp
qed

lemma parseInt_show_nat: "parseInt (show_nat n) = to_number (int n)"
  by (simp add: parseInt_def dropWhile_show_nat strip_sign_show_nat strip_prefix_show_nat
      takeWhile_show_nat digits_value_show_nat show_nat_nonempty)

lemma parseInt_minus_show_nat: "parseInt (CHR ''-'' # show_nat n) = to_number (- int n)"
  by (simp add: parseInt_def is_white_space_def strip_sign_def strip_prefix_show_nat
      takeWhile_show_nat digits_value_show_nat show_nat_nonempty)

lemma parseInt_show_int: "parseInt (show_int z) = to_number z"
  by (simp add: show_int_def parseInt_show_nat parseInt_minus_show_nat)


lemma bit_length_bounds: "0 < n \<Longrightarrow> 2 ^ (bit_length n - 1) \<le> n \<and> n < 2 ^ bit_length n"
proof (induction n rule: bit_length.induct)
  case (1 n)
  show ?case
  proof (cases "n div 2 = 0")
    case True
    then have "n = 1" using "1.prems" by presburger
    then show ?thesis by (simp add: bit_length.simps [of "Suc 0"] bit_length.simps [of 0])
  next
    case False
    then have pos: "0 < n div 2" by simp
    have b: "bit_length n = Suc (bit_length (n div 2))"
      using "1.prems" by (simp add: bit_length.simps [of n])
    have ih: "2 ^ (bit_length (n div 2) - 1) \<le> n div 2" "n div 2 < 2 ^ bit_length (n div 2)"
      using "1.IH" "1.prems" pos by simp_all
    have bl: "0 < bit_length (n div 2)" using pos by (simp add: bit_length.simps [of "n div 2"])
    then have "(2::nat) ^ bit_length (n div 2) = 2 * 2 ^ (bit_length (n div 2) - 1)"
      by (cases "bit_length (n div 2)") simp_all
    then have lo: "2 ^ bit_length (n div 2) \<le> n" using ih(1) by presburger
    have hi: "n < 2 * 2 ^ bit_length (n div 2)" using ih(2) by presburger
    show ?thesis using lo hi by (simp add: b)
  qed
qed

lemma round_double_small: "v < 2 ^ 53 \<Longrightarrow> round_double v = v"
  by (simp add: round_double_def)

lemma round_double_large:
  assumes "2 ^ 53 \<le> v"
  shows "2 ^ 53 \<le> round_double v"
proof -
  define e where "e = bit_length v - 53"
  define q where "q = v div 2 ^ e"
  have pos: "0 < v" using assms by (simp add: less_le_trans [of 0 "2 ^ 53" v])
  have "(2::nat) ^ 53 < 2 ^ bit_length v"
    using assms bit_length_bounds [OF pos] by linarith
  with power_less_imp_less_exp [of "2::nat" 53 "bit_length v"]
  have b: "53 < bit_length v" by simp
  then have e1: "1 \<le> e" and be: "bit_length v - 1 = 52 + e" by (simp_all add: e_def)
  have "(2::nat) ^ 52 * 2 ^ e \<le> v"
    using bit_length_bounds [OF pos] be by (simp add: power_add)
  then have "(2::nat) ^ 52 * 2 ^ e div 2 ^ e \<le> v div 2 ^ e" by (rule div_le_mono)
  then have q52: "2 ^ 52 \<le> q" by (simp add: q_def)
  have "(2::nat) ^ 1 \<le> 2 ^ e" using e1 by (intro power_increasing) simp_all
  then have "(2::nat) ^ 52 * 2 \<le> q * 2 ^ e" using q52 by (intro mult_le_mono) simp_all
  then have qe: "2 ^ 53 \<le> q * 2 ^ e" by simp
  have "q * 2 ^ e \<le> (if v mod 2 ^ e > 2 ^ (e - 1) \<or> (v mod 2 ^ e = 2 ^ (e - 1) \<and> odd q) then q + 1 else q) * 2 ^ e"
    by simp
  then show ?thesis
    using assms qe by (simp add: round_double_def Let_def e_def [symmetric] q_def [symmetric])
qed

lemma round_double_exact:
  assumes "m < 2 ^ 53" "round_double v = m"
  shows "v = m"
proof (cases "v < 2 ^ 53")
  case True
  then show ?thesis using assms(2) by (simp add: round_double_small)
next
  case False
  then have "2 ^ 53 \<le> round_double v" by (intro round_double_large) simp
  then show ?thesis using assms by simp
qed

lemma candidates_round: "v \<in> set (candidates m k) \<Longrightarrow> round_double v = m"
  by (simp only: candidates_def Let_def set_filter mem_Collect_eq)

lemma candidates_exact: "m < 2 ^ 53 \<Longrightarrow> v \<in> set (candidates m k) \<Longrightarrow> v = m"
  by (rule round_double_exact) (simp_all only: candidates_round)

lemma closest_same: "closest m p m m = m"
  by (simp add: closest_def)

lemma shortest_from_exact: "m < 2 ^ 53 \<Longrightarrow> shortest_from m k = m"
proof (induction m k rule: shortest_from.induct)
  case (1 m k)
  show ?case
  proof (cases "length (show_nat m) \<le> k")
    case True
    then show ?thesis by (simp add: shortest_from.simps [of m k])
  next
    case False
    show ?thesis
    proof (cases "candidates m k")
      case Nil
      then show ?thesis using False "1.IH" "1.prems" by (simp add: shortest_from.simps [of m k])
    next
      case (Cons a r)
      then have a: "a = m" using candidates_exact [OF "1.prems", of a k] by simp
      show ?thesis
      proof (cases r)
        case Nil
        then show ?thesis using False Cons a by (simp add: shortest_from.simps [of m k])
      next
        case (Cons b r')
        then have "b = m" using candidates_exact [OF "1.prems", of b k] \<open>candidates m k = a # r\<close> by simp
        then show ?thesis
          using False Cons a \<open>candidates m k = a # r\<close>
          by (simp add: shortest_from.simps [of m k] closest_same)
      qed
    qed
  qed
qed

lemma show_nat_length: "0 < k \<Longrightarrow> n < 10 ^ k \<Longrightarrow> length (show_nat n) \<le> k"
proof (induction n arbitrary: k rule: show_nat.induct)
  case (1 n)
  show ?case
  proof (cases "n < 10")
    case True
    then show ?thesis using "1.prems" by (simp add: show_nat.simps [of n])
  next
    case False
    then obtain j where k: "k = Suc j" using "1.prems" by (cases k) simp_all
    have "0 < j" using False "1.prems" k by (cases j) simp_all
    moreover have "n div 10 < 10 ^ j" using "1.prems" k by (simp add: less_mult_imp_div_less mult.commute)
    ultimately have "length (show_nat (n div 10)) \<le> j" using "1.IH" False by simp
    then show ?thesis using False k by (simp add: show_nat.simps [of n])
  qed
qed

lemma nat_to_string_exact: "m < 2 ^ 53 \<Longrightarrow> nat_to_string m = show_nat m"
proof (cases "m = 0")
  case True
  then show ?thesis by (simp add: nat_to_string_def show_nat.simps [of 0] digit_char_def)
next
  case False
  assume m: "m < 2 ^ 53"
  then have "m < 10 ^ 21" by simp
  then have "length (show_nat m) \<le> 21" by (intro show_nat_length) simp_all
  then show ?thesis
    using False m by (simp add: nat_to_string_def shortest_decimal_def shortest_from_exact)
qed

lemma to_number_exact: "\<bar>z\<bar> < 2 ^ 53 \<Longrightarrow> to_number z = Finite z"
proof -
  assume z: "\<bar>z\<bar> < 2 ^ 53"
  then have "nat \<bar>z\<bar> < 2 ^ 53" by (simp add: nat_less_iff)
  then have r: "round_double (nat \<bar>z\<bar>) = nat \<bar>z\<bar>" and lt: "nat \<bar>z\<bar> < 2 ^ 1024"
    by (simp_all add: round_double_small)
  show ?thesis using lt by (simp add: to_number_def r Let_def)
qed

lemma number_to_json_exact: "\<bar>z\<bar> < 2 ^ 53 \<Longrightarrow> number_to_json (Finite z) = show_int z"
proof -
  assume z: "\<bar>z\<bar> < 2 ^ 53"
  have "nat_to_string (nat (- z)) = show_nat (nat (- z))"
    by (rule nat_to_string_exact) (use z in simp)
  moreover have "nat_to_string (nat z) = show_nat (nat z)"
    by (rule nat_to_string_exact) (use z in simp)
  ultimately show ?thesis by (simp add: show_int_def)
qed

lemma choice_answer_exact:
  assumes "\<bar>z\<bar> < 2 ^ 53"
  shows "choice_answer (show_int z) = choice_json z"
proof -
  have "number_to_json (parseInt (show_int z)) = show_int z"
    by (simp only: parseInt_show_int to_number_exact [OF assms] number_to_json_exact [OF assms])
  then show ?thesis
    by (simp add: choice_answer_def choice_json_def dq_def quote_def escape_char_def
        escape_marker_def)
qed

section \<open>The session loop and pending operations\<close>

text \<open>
  Claim C1, as stated, fails: reading is not suspended while an operation is pending.
  Two lines that arrive one after the other are both dispatched, the second while
  the deferred result of the first has not settled. Both operations are then pending
  at once, both calls have reached the assistant core, and no prompt was drawn in
  between.
\<close>

theorem two_pending_operations:
  "run [Line idle_engine ''list my apps'', Line idle_engine ''list my devices'']
       (interact constructor) =
     \<lparr>oauthKind = Null, oauthSession = [],
      trace = [Call ConversationStart, Prompt, Call (HandleCommand ''list my apps''),
               Call (HandleCommand ''list my devices'')],
      tasks = [\<lparr>callback = NoCallback, chain_end = PromptThenDone, pending = True\<rparr>,
               \<lparr>callback = NoCallback, chain_end = PromptThenDone, pending = True\<rparr>],
      closed = False, uncaught = [], exited = False\<rparr>
   \<and> in_flight (run [Line idle_engine ''list my apps'', Line idle_engine ''list my devices'']
       (interact constructor)) = 2"
  by (simp add: eval_defs handler_defs in_flight_def)

text \<open>
  Claim C1, amended. The prompt is not redrawn for a line while the deferred result
  returned by its handler is pending. A line whose handler returns a deferred result
  draws no prompt when it is dispatched and adds one awaited operation. Every event
  keeps the account: an event that is not a line draws a prompt only by settling an
  awaited operation, and a line adds at most one prompt or one awaited operation. So
  in every run the prompts drawn plus the operations still awaited never exceed the
  prompts and awaited operations at the start plus the lines read. When an awaited
  operation is fulfilled, the prompt is drawn after the output of the handler's
  callback.
\<close>

theorem prompt_accounting:
  "prompts (step ev s) + awaited (step ev s) \<le> prompts s + awaited s + (if is_line ev then 1 else 0)
   \<and> prompts (run evs s) + awaited (run evs s) \<le> prompts s + awaited s + lines_read evs
   \<and> (fst (dispatch env l s) = Returned (Some i) \<longrightarrow>
        prompts (onLine env l s) = prompts s \<and> awaited (onLine env l s) = awaited s + 1)
   \<and> (j < length (tasks s) \<and> awaited_task (tasks s ! j) \<and> accepts (callback (tasks s ! j)) v \<longrightarrow>
        settle j (Fulfilled v) s =
          emit Prompt (run_callback (callback (tasks s ! j)) v
            (s\<lparr>tasks := (tasks s)[j := (tasks s ! j)\<lparr>pending := False\<rparr>]\<rparr>)))"
proof -
  have "settle j (Fulfilled v) s =
          emit Prompt (run_callback (callback (tasks s ! j)) v
            (s\<lparr>tasks := (tasks s)[j := (tasks s ! j)\<lparr>pending := False\<rparr>]\<rparr>))"
    if "j < length (tasks s)" "awaited_task (tasks s ! j)" "accepts (callback (tasks s ! j)) v"
    using that by (simp add: settle_def awaited_task_def Let_def)
  then show ?thesis
    using step_accounting [of ev s] run_accounting [of evs s] onLine_deferred [of env l s i]
    by blast
qed

theorem prompt_accounting_witness:
  "fst (dispatch idle_engine ''hello'' (interact constructor)) = Returned (Some 0)
   \<and> prompts (onLine idle_engine ''hello'' (interact constructor)) = 1
   \<and> awaited (onLine idle_engine ''hello'' (interact constructor)) = 1
   \<and> prompts (run [Line idle_engine ''hello'', Settle 0 (Fulfilled Nothing)] (interact constructor))
       + awaited (run [Line idle_engine ''hello'', Settle 0 (Fulfilled Nothing)] (interact constructor))
       \<le> 2
   \<and> 0 < length (tasks (onLine idle_engine ''hello'' (interact constructor)))
   \<and> awaited_task (tasks (onLine idle_engine ''hello'' (interact constructor)) ! 0)
   \<and> accepts (callback (tasks (onLine idle_engine ''hello'' (interact constructor)) ! 0)) Nothing
   \<and> trace (settle 0 (Fulfilled Nothing) (onLine idle_engine ''hello'' (interact constructor))) =
       [Call ConversationStart, Prompt, Call (HandleCommand ''hello''), Prompt]"
proof -
  have d: "fst (dispatch idle_engine ''hello'' (interact constructor)) = Returned (Some 0)"
    by (simp add: eval_defs handler_defs)
  have o: "onLine idle_engine ''hello'' (interact constructor) =
      \<lparr>oauthKind = Null, oauthSession = [],
       trace = [Call ConversationStart, Prompt, Call (HandleCommand ''hello'')],
       tasks = [\<lparr>callback = NoCallback, chain_end = PromptThenDone, pending = True\<rparr>],
       closed = False, uncaught = [], exited = False\<rparr>"
    by (simp add: eval_defs handler_defs)
  have p: "prompts (interact constructor) = 1" "awaited (interact constructor) = 0"
    by (simp_all add: prompts_def awaited_def interact_def constructor_def emit_def)
  have l: "lines_read [Line idle_engine ''hello'', Settle 0 (Fulfilled Nothing)] = 1"
    by (simp add: lines_read_def)
  have a: "prompts (onLine idle_engine ''hello'' (interact constructor)) = 1
      \<and> awaited (onLine idle_engine ''hello'' (interact constructor)) = 1
      \<and> prompts (run [Line idle_engine ''hello'', Settle 0 (Fulfilled Nothing)] (interact constructor))
          + awaited (run [Line idle_engine ''hello'', Settle 0 (Fulfilled Nothing)] (interact constructor))
          \<le> 2"
    using d p l prompt_accounting [of Sigint "interact constructor"
        "[Line idle_engine ''hello'', Settle 0 (Fulfilled Nothing)]" idle_engine "''hello''" 0 0 Nothing]
    by simp
  have b: "trace (settle 0 (Fulfilled Nothing) (onLine idle_engine ''hello'' (interact constructor))) =
       [Call ConversationStart, Prompt, Call (HandleCommand ''hello''), Prompt]"
    using prompt_accounting [of Sigint "onLine idle_engine ''hello'' (interact constructor)" "[]"
        idle_engine "''hello''" 0 0 Nothing]
    by (simp add: o awaited_task_def emit_def)
  show ?thesis using d a b by (simp add: o awaited_task_def)
qed

text \<open>
  Claim C2, as stated, fails: a handler failure is not converted into a terminal
  message. When the deferred result of \<open>handleCommand\<close> is rejected, nothing is
  printed and the prompt is not redrawn; the error leaves the chain through
  \<open>done()\<close>, uncaught.
\<close>

theorem handler_failure_not_reported:
  "run [Line idle_engine ''hello'', Settle 0 (Rejected (Failure ''boom''))] (interact constructor) =
     \<lparr>oauthKind = Null, oauthSession = [],
      trace = [Call ConversationStart, Prompt, Call (HandleCommand ''hello'')],
      tasks = [\<lparr>callback = NoCallback, chain_end = PromptThenDone, pending = False\<rparr>],
      closed = False, uncaught = [Failure ''boom''], exited = False\<rparr>"
  by (simp add: eval_defs handler_defs)

text \<open>
  Claim C2, amended. A failure of the selected handler, be it an exception thrown
  while the line is dispatched or the rejection of the deferred result it returned,
  is taken up by the promise chain of \<open>_onLine\<close> and rethrown by \<open>done()\<close> as an
  uncaught error. The session loop prints nothing for it, does not redraw the prompt
  and does not close the line reader: the state changes only in the list of uncaught
  errors and in the settled task.
\<close>

theorem handler_failure_rethrown:
  "(fst (dispatch env l s) = Thrown e \<longrightarrow> onLine env l s = s\<lparr>uncaught := uncaught s @ [e]\<rparr>)
   \<and> (i < length (tasks s) \<and> awaited_task (tasks s ! i) \<longrightarrow>
        settle i (Rejected e) s =
          s\<lparr>tasks := (tasks s)[i := (tasks s ! i)\<lparr>pending := False\<rparr>],
            uncaught := uncaught s @ [e]\<rparr>)"
proof -
  have a: "onLine env l s = s\<lparr>uncaught := uncaught s @ [e]\<rparr>" if "fst (dispatch env l s) = Thrown e"
    using that dispatch_thrown [OF that] by (cases "dispatch env l s") (simp add: onLine_def)
  have b: "settle i (Rejected e) s =
          s\<lparr>tasks := (tasks s)[i := (tasks s ! i)\<lparr>pending := False\<rparr>],
            uncaught := uncaught s @ [e]\<rparr>"
    if "i < length (tasks s)" "awaited_task (tasks s ! i)"
    using that by (simp add: settle_def awaited_task_def Let_def)
  from a b show ?thesis by blast
qed

theorem handler_failure_rethrown_witness:
  "fst (dispatch idle_engine (escape_marker # ''d complete-oauth'') constructor)
      = Thrown (TypeError (''Parameter '' @ [CHR 0x22] @ ''url'' @ [CHR 0x22] @ '' must be a string, not undefined''))
   \<and> onLine idle_engine (escape_marker # ''d complete-oauth'') constructor =
       constructor\<lparr>uncaught := [TypeError (''Parameter '' @ [CHR 0x22] @ ''url'' @ [CHR 0x22] @ '' must be a string, not undefined'')]\<rparr>
   \<and> 0 < length (tasks (onLine idle_engine ''hello'' constructor))
   \<and> awaited_task (tasks (onLine idle_engine ''hello'' constructor) ! 0)
   \<and> settle 0 (Rejected (Failure ''boom'')) (onLine idle_engine ''hello'' constructor) =
       constructor\<lparr>trace := [Call (HandleCommand ''hello'')],
         tasks := [\<lparr>callback = NoCallback, chain_end = PromptThenDone, pending = False\<rparr>],
         uncaught := [Failure ''boom'']\<rparr>"
proof -
  have d: "fst (dispatch idle_engine (escape_marker # ''d complete-oauth'') constructor)
      = Thrown (TypeError (''Parameter '' @ [CHR 0x22] @ ''url'' @ [CHR 0x22] @ '' must be a string, not undefined''))"
    by (simp add: eval_defs runDeviceCommand_def Url_parse_query_def handler_defs)
  have o: "onLine idle_engine ''hello'' constructor =
      constructor\<lparr>trace := [Call (HandleCommand ''hello'')],
         tasks := [\<lparr>callback = NoCallback, chain_end = PromptThenDone, pending = True\<rparr>]\<rparr>"
    by (simp add: eval_defs handler_defs)
  have c: "uncaught constructor = []"
    by (simp add: constructor_def)
  show ?thesis
    using d handler_failure_rethrown [of idle_engine "escape_marker # ''d complete-oauth''" constructor
        "TypeError (''Parameter '' @ [CHR 0x22] @ ''url'' @ [CHR 0x22] @ '' must be a string, not undefined'')" 0]
      handler_failure_rethrown [of idle_engine "''hello''" "onLine idle_engine ''hello'' constructor"
        "Failure ''boom''" 0]
    by (simp add: o c awaited_task_def)
qed

text \<open>
  Claim C4 fails on the diagnostic handler. The line \<open>\l\<close> runs \<open>_testLog\<close>, which
  starts its eight queries and returns \<open>undefined\<close>: the prompt is drawn at once and
  none of the eight pending tasks is tied to the session loop. The messaging handlers
  for \<open>identity\<close> and \<open>search\<close> do return the deferred result they start.
\<close>

theorem testLog_returns_nothing:
  "dispatch env [escape_marker, CHR ''l''] s = testLog s
   \<and> fst (testLog s) = Returned None
   \<and> onLine env [escape_marker, CHR ''l''] s =
       s\<lparr>trace := trace s @ map (\<lambda>q. Call (Ibase q)) testLog_queries @ [Prompt],
         tasks := tasks s @ replicate 8 \<lparr>callback = LogResult, chain_end = Dropped, pending = True\<rparr>\<rparr>
   \<and> fst (runMessagingCommand env (Str ''identity'') param s) = Returned (Some (length (tasks s)))
   \<and> fst (runMessagingCommand env (Str ''search'') param s) = Returned (Some (length (tasks s)))"
  by (simp add: onLine_def dispatch_def classify_def char_at_def escape_marker_def testLog_def
      testLog_queries_def runMessagingCommand_def handler_defs numeral_eq_Suc)

section \<open>The OAuth pairing\<close>

text \<open>
  Claim C3, as stated, fails: the stored pair does not keep its value when phase 1
  fails. \<open>start-oauth twitter\<close> issued in the initial state, whose kind is \<open>null\<close>,
  leaves the kind \<open>twitter\<close> behind after the factory has rejected the call; nothing
  is printed for the failure.
\<close>

theorem start_oauth_failure_changes_kind:
  "oauthKind (interact constructor) = Null
   \<and> run [Line idle_engine (command_line CHR ''d'' ''start-oauth'' ''twitter''),
           Settle 0 (Rejected (Failure ''denied''))] (interact constructor) =
       \<lparr>oauthKind = Str ''twitter'', oauthSession = [],
        trace = [Call ConversationStart, Prompt, Call (RunOAuth2 (Str ''twitter'') None)],
        tasks = [\<lparr>callback = StoreSession, chain_end = PromptThenDone, pending = False\<rparr>],
        closed = False, uncaught = [Failure ''denied''], exited = False\<rparr>"
  by (simp add: eval_defs runDeviceCommand_def handler_defs)

text \<open>
  Claim C3, amended. The kind is stored when phase 1 starts, the session only when it
  completes. After \<open>start-oauth\<close> with a kind the stored kind is that kind and the
  stored session is the one from before. If the call then fails, the session is still
  the one from before and the kind stays the new one; the failure is rethrown
  uncaught and nothing is printed. If the call succeeds, the returned session is
  stored and the redirect is printed before the prompt.
\<close>

theorem start_oauth_failure:
  "CHR '' '' \<notin> set k \<longrightarrow>
     oauthKind (onLine env (command_line CHR ''d'' ''start-oauth'' k) s) = Str k
     \<and> oauthSession (onLine env (command_line CHR ''d'' ''start-oauth'' k) s) = oauthSession s
     \<and> settle (length (tasks s)) (Rejected e) (onLine env (command_line CHR ''d'' ''start-oauth'' k) s) =
        s\<lparr>oauthKind := Str k,
          trace := trace s @ [Call (RunOAuth2 (Str k) None)],
          tasks := tasks s @ [\<lparr>callback = StoreSession, chain_end = PromptThenDone, pending = False\<rparr>],
          uncaught := uncaught s @ [e]\<rparr>
     \<and> settle (length (tasks s)) (Fulfilled (Redirect r sess)) (onLine env (command_line CHR ''d'' ''start-oauth'' k) s) =
        s\<lparr>oauthKind := Str k, oauthSession := sess,
          trace := trace s @ [Call (RunOAuth2 (Str k) None), Print r, Prompt],
          tasks := tasks s @ [\<lparr>callback = StoreSession, chain_end = PromptThenDone, pending = False\<rparr>]\<rparr>"
  by (simp add: onLine_start_oauth settle_def handler_defs)

theorem start_oauth_failure_witness:
  "CHR '' '' \<notin> set ''twitter''
   \<and> settle 0 (Rejected (Failure ''denied''))
        (onLine idle_engine (command_line CHR ''d'' ''start-oauth'' ''twitter'') constructor) =
      constructor\<lparr>oauthKind := Str ''twitter'',
          trace := [Call (RunOAuth2 (Str ''twitter'') None)],
          tasks := [\<lparr>callback = StoreSession, chain_end = PromptThenDone, pending = False\<rparr>],
          uncaught := [Failure ''denied'']\<rparr>"
  using start_oauth_failure [of "''twitter''" idle_engine constructor "Failure ''denied''"]
  by (simp add: constructor_def)

text \<open>
  Claim C5. \<open>complete-oauth\<close> with a URL calls the factory with the stored kind and a
  request whose method is \<open>GET\<close>, whose query is the parsed query of that URL and
  whose session is the stored session, whatever the state. When it follows a
  \<open>start-oauth\<close> with a kind that the factory fulfilled with a redirect and a session,
  the call carries that kind and that session. Kind and URL contain no space, so that
  each is the whole parameter of its command.
\<close>

theorem oauth_round_trip:
  "(CHR '' '' \<notin> set u \<longrightarrow>
      trace (onLine env' (command_line CHR ''d'' ''complete-oauth'' u) s) =
        trace s @ [Call (RunOAuth2 (oauthKind s)
           (Some \<lparr>httpVersion = ''1.0'', headers = [], rawHeaders = [], http_method = ''GET'',
                  url = u, query = url_query env' u, session = oauthSession s\<rparr>))])
   \<and> (\<not> closed s \<and> \<not> exited s \<and> CHR '' '' \<notin> set k \<and> CHR '' '' \<notin> set u \<longrightarrow>
      trace (run [Line env (command_line CHR ''d'' ''start-oauth'' k),
                  Settle (length (tasks s)) (Fulfilled (Redirect r sess)),
                  Line env' (command_line CHR ''d'' ''complete-oauth'' u)] s) =
        trace s @ [Call (RunOAuth2 (Str k) None), Print r, Prompt,
           Call (RunOAuth2 (Str k)
             (Some \<lparr>httpVersion = ''1.0'', headers = [], rawHeaders = [], http_method = ''GET'',
                    url = u, query = url_query env' u, session = sess\<rparr>))])"
  by (simp add: run_def step_def onLine_start_oauth onLine_complete_oauth settle_def handler_defs)

theorem oauth_round_trip_witness:
  "\<not> closed (interact constructor) \<and> \<not> exited (interact constructor)
   \<and> CHR '' '' \<notin> set ''twitter'' \<and> CHR '' '' \<notin> set ''http://cb/?code=1''
   \<and> trace (run [Line idle_engine (command_line CHR ''d'' ''start-oauth'' ''twitter''),
                  Settle 0 (Fulfilled (Redirect ''http://redirect'' [(''state'', ''42'')])),
                  Line idle_engine (command_line CHR ''d'' ''complete-oauth'' ''http://cb/?code=1'')]
               (interact constructor)) =
        [Call ConversationStart, Prompt,
         Call (RunOAuth2 (Str ''twitter'') None), Print ''http://redirect'', Prompt,
         Call (RunOAuth2 (Str ''twitter'')
             (Some \<lparr>httpVersion = ''1.0'', headers = [], rawHeaders = [], http_method = ''GET'',
                    url = ''http://cb/?code=1'', query = [(''code'', ''1'')],
                    session = [(''state'', ''42'')]\<rparr>))]"
  using oauth_round_trip [of "''http://cb/?code=1''" idle_engine "interact constructor" "''twitter''"
      idle_engine "''http://redirect''" "[(''state'', ''42'')]"]
  by (simp add: interact_def constructor_def idle_engine_def emit_def)




section \<open>The dispatcher\<close>

text \<open>
  Claim C7, as stated, fails on its last part: an escape line whose second character
  is none of the tested letters selects no verb handler. The line \<open>\z\<close> is routed to
  the unknown-command branch, which prints a message and calls nothing.
\<close>

theorem unknown_escape_selects_no_verb:
  "classify [escape_marker, CHR ''z''] = UnknownCommand (Some CHR ''z'')
   \<and> \<not> (\<exists>v. classify [escape_marker, CHR ''z''] = Meta v)
   \<and> dispatch idle_engine [escape_marker, CHR ''z''] constructor =
       (Returned None, constructor\<lparr>trace := [Print ''Unknown command z'']\<rparr>)"
  by (simp add: classify_def dispatch_def char_at_def handler_defs constructor_def)

text \<open>
  Claim C7, amended. A line that is empty after trimming calls no handler and no
  collaborator: the state is unchanged and only the prompt is drawn. A line that does
  not start with the escape marker and is not empty after trimming is passed
  unchanged to \<open>handleCommand\<close>, once. A line that starts with the escape marker
  selects exactly one verb handler when its second character is one of the letters
  tested by the chain, and the dispatch of the line is the run of that handler and
  nothing else: \<open>q\<close> quits, \<open>?\<close> prints the help, \<open>r\<close>, \<open>t\<close> and \<open>c\<close> forward the
  rest of the line to the assistant core as parsed command, ThingTalk and choice
  answer, \<open>a\<close>, \<open>d\<close>, \<open>m\<close> and \<open>p\<close> run the app, device, messaging and permission
  commands on the split arguments, \<open>l\<close> runs the diagnostic. Otherwise the line
  selects no verb handler and prints \<open>Unknown command\<close> followed by that character
  (\<open>undefined\<close> when the line is the marker alone).
\<close>

theorem line_routing:
  "(trim line = [] \<longrightarrow> dispatch env line s = (Returned None, s) \<and> onLine env line s = emit Prompt s)
   \<and> (char_at line 0 \<noteq> Some escape_marker \<and> trim line \<noteq> [] \<longrightarrow>
        dispatch env line s =
          (Returned (Some (length (tasks s))),
           s\<lparr>trace := trace s @ [Call (HandleCommand line)],
             tasks := tasks s @ [\<lparr>callback = NoCallback, chain_end = Dropped, pending = True\<rparr>]\<rparr>))
   \<and> (char_at line 0 = Some escape_marker \<and> char_at line 1 = Some c \<and> c \<in> set verb_letters \<longrightarrow>
        (\<exists>!v. classify line = Meta v))
   \<and> (char_at line 0 = Some escape_marker \<longrightarrow>
        (char_at line 1 = Some CHR ''q'' \<longrightarrow> dispatch env line s = (Returned None, quit s))
        \<and> (char_at line 1 = Some CHR ''?'' \<longrightarrow> dispatch env line s = (Returned None, show_help s))
        \<and> (char_at line 1 = Some CHR ''r'' \<longrightarrow>
             dispatch env line s =
               returning (deferred (HandleParsedCommand (substr line 3)) NoCallback s))
        \<and> (char_at line 1 = Some CHR ''t'' \<longrightarrow>
             dispatch env line s =
               returning (deferred (HandleThingTalk (substr line 3)) NoCallback s))
        \<and> (char_at line 1 = Some CHR ''c'' \<longrightarrow>
             dispatch env line s =
               returning (deferred (HandleParsedCommand (choice_answer (substr line 3))) NoCallback s))
        \<and> (char_at line 1 = Some CHR ''a'' \<longrightarrow>
             dispatch env line s =
               runAppCommand env (fst (spread_args line)) (snd (spread_args line)) s)
        \<and> (char_at line 1 = Some CHR ''d'' \<longrightarrow>
             dispatch env line s =
               runDeviceCommand env (fst (spread_args line)) (snd (spread_args line)) s)
        \<and> (char_at line 1 = Some CHR ''m'' \<longrightarrow>
             dispatch env line s =
               runMessagingCommand env (fst (spread_args line)) (snd (spread_args line)) s)
        \<and> (char_at line 1 = Some CHR ''p'' \<longrightarrow>
             dispatch env line s =
               runPermissionCommand env (fst (spread_args line)) (snd (spread_args line)) s)
        \<and> (char_at line 1 = Some CHR ''l'' \<longrightarrow> dispatch env line s = testLog s))
   \<and> (char_at line 0 = Some escape_marker \<and> (\<forall>c \<in> set verb_letters. char_at line 1 \<noteq> Some c) \<longrightarrow>
        dispatch env line s =
          (Returned None,
           console_log (''Unknown command '' @ (case char_at line 1 of None \<Rightarrow> ''undefined'' | Some x \<Rightarrow> [x])) s))"
proof -
  have a: "trim line = [] \<longrightarrow>
      dispatch env line s = (Returned None, s) \<and> onLine env line s = emit Prompt s"
    using trim_empty_no_escape [of line] by (simp add: dispatch_def onLine_def classify_def)
  have b: "char_at line 0 \<noteq> Some escape_marker \<and> trim line \<noteq> [] \<longrightarrow>
        dispatch env line s =
          (Returned (Some (length (tasks s))),
           s\<lparr>trace := trace s @ [Call (HandleCommand line)],
             tasks := tasks s @ [\<lparr>callback = NoCallback, chain_end = Dropped, pending = True\<rparr>]\<rparr>)"
    by (simp add: dispatch_def classify_def handler_defs)
  have c: "char_at line 0 = Some escape_marker \<and> char_at line 1 = Some c \<and> c \<in> set verb_letters \<longrightarrow>
        (\<exists>!v. classify line = Meta v)"
    by (auto simp: classify_def verb_letters_def)
  have v: "char_at line 0 = Some escape_marker \<longrightarrow>
        (char_at line 1 = Some CHR ''q'' \<longrightarrow> dispatch env line s = (Returned None, quit s))
        \<and> (char_at line 1 = Some CHR ''?'' \<longrightarrow> dispatch env line s = (Returned None, show_help s))
        \<and> (char_at line 1 = Some CHR ''r'' \<longrightarrow>
             dispatch env line s =
               returning (deferred (HandleParsedCommand (substr line 3)) NoCallback s))
        \<and> (char_at line 1 = Some CHR ''t'' \<longrightarrow>
             dispatch env line s =
               returning (deferred (HandleThingTalk (substr line 3)) NoCallback s))
        \<and> (char_at line 1 = Some CHR ''c'' \<longrightarrow>
             dispatch env line s =
               returning (deferred (HandleParsedCommand (choice_answer (substr line 3))) NoCallback s))
        \<and> (char_at line 1 = Some CHR ''a'' \<longrightarrow>
             dispatch env line s =
               runAppCommand env (fst (spread_args line)) (snd (spread_args line)) s)
        \<and> (char_at line 1 = Some CHR ''d'' \<longrightarrow>
             dispatch env line s =
               runDeviceCommand env (fst (spread_args line)) (snd (spread_args line)) s)
        \<and> (char_at line 1 = Some CHR ''m'' \<longrightarrow>
             dispatch env line s =
               runMessagingCommand env (fst (spread_args line)) (snd (spread_args line)) s)
        \<and> (char_at line 1 = Some CHR ''p'' \<longrightarrow>
             dispatch env line s =
               runPermissionCommand env (fst (spread_args line)) (snd (spread_args line)) s)
        \<and> (char_at line 1 = Some CHR ''l'' \<longrightarrow> dispatch env line s = testLog s)"
    using escape_line_is_not_h [of line] by (simp add: dispatch_def classify_def)
  have d: "char_at line 0 = Some escape_marker \<and> (\<forall>c \<in> set verb_letters. char_at line 1 \<noteq> Some c) \<longrightarrow>
        dispatch env line s =
          (Returned None,
           console_log (''Unknown command '' @ (case char_at line 1 of None \<Rightarrow> ''undefined'' | Some x \<Rightarrow> [x])) s)"
    using escape_line_is_not_h [of line] by (simp add: dispatch_def classify_def verb_letters_def)
  from a b c v d show ?thesis by (intro conjI)
qed

theorem line_routing_witness:
  "trim ''  '' = []
   \<and> onLine idle_engine ''  '' constructor = emit Prompt constructor
   \<and> char_at ''hi'' 0 \<noteq> Some escape_marker \<and> trim ''hi'' \<noteq> []
   \<and> dispatch idle_engine ''hi'' constructor =
       (Returned (Some 0),
        constructor\<lparr>trace := [Call (HandleCommand ''hi'')],
          tasks := [\<lparr>callback = NoCallback, chain_end = Dropped, pending = True\<rparr>]\<rparr>)
   \<and> char_at [escape_marker, CHR ''a''] 0 = Some escape_marker
   \<and> char_at [escape_marker, CHR ''a''] 1 = Some CHR ''a'' \<and> CHR ''a'' \<in> set verb_letters
   \<and> (\<exists>!v. classify [escape_marker, CHR ''a''] = Meta v)
   \<and> dispatch idle_engine [escape_marker, CHR ''q''] constructor = (Returned None, quit constructor)
   \<and> dispatch idle_engine [escape_marker, CHR ''?''] constructor = (Returned None, show_help constructor)
   \<and> dispatch idle_engine [escape_marker, CHR ''r''] constructor =
       returning (deferred (HandleParsedCommand []) NoCallback constructor)
   \<and> dispatch idle_engine [escape_marker, CHR ''t''] constructor =
       returning (deferred (HandleThingTalk []) NoCallback constructor)
   \<and> dispatch idle_engine [escape_marker, CHR ''c''] constructor =
       returning (deferred (HandleParsedCommand (choice_answer [])) NoCallback constructor)
   \<and> dispatch idle_engine [escape_marker, CHR ''a''] constructor =
       runAppCommand idle_engine (Str []) Undefined constructor
   \<and> dispatch idle_engine [escape_marker, CHR ''d''] constructor =
       runDeviceCommand idle_engine (Str []) Undefined constructor
   \<and> dispatch idle_engine [escape_marker, CHR ''m''] constructor =
       runMessagingCommand idle_engine (Str []) Undefined constructor
   \<and> dispatch idle_engine [escape_marker, CHR ''p''] constructor =
       runPermissionCommand idle_engine (Str []) Undefined constructor
   \<and> dispatch idle_engine [escape_marker, CHR ''l''] constructor = testLog constructor
   \<and> char_at [escape_marker] 0 = Some escape_marker
   \<and> dispatch idle_engine [escape_marker] constructor =
       (Returned None, console_log ''Unknown command undefined'' constructor)"
proof -
  have w: "trim ''  '' = []" "trim ''hi'' \<noteq> []"
    by (simp_all add: trim_def is_white_space_def)
  have e: "char_at ''hi'' 0 \<noteq> Some escape_marker" "char_at [escape_marker] 0 = Some escape_marker"
    "char_at [escape_marker] 1 = None"
    "\<And>x. char_at [escape_marker, x] 0 = Some escape_marker"
    "\<And>x. char_at [escape_marker, x] 1 = Some x"
    by (simp_all add: char_at_def escape_marker_def)
  have v: "CHR ''a'' \<in> set verb_letters" by (simp add: verb_letters_def)
  have g: "\<And>x. substr [escape_marker, x] 3 = []"
    "\<And>x. spread_args [escape_marker, x] = (Str [], Undefined)"
    by (simp_all add: substr_def spread_args_def)
  have base: "trim ''  '' = []
      \<and> onLine idle_engine ''  '' constructor = emit Prompt constructor
      \<and> char_at ''hi'' 0 \<noteq> Some escape_marker \<and> trim ''hi'' \<noteq> []
      \<and> dispatch idle_engine ''hi'' constructor =
          (Returned (Some 0),
           constructor\<lparr>trace := [Call (HandleCommand ''hi'')],
             tasks := [\<lparr>callback = NoCallback, chain_end = Dropped, pending = True\<rparr>]\<rparr>)
      \<and> (\<exists>!v. classify [escape_marker, CHR ''a''] = Meta v)
      \<and> dispatch idle_engine [escape_marker] constructor =
          (Returned None, console_log ''Unknown command undefined'' constructor)"
    using w e v line_routing [of "''  ''" idle_engine constructor]
      line_routing [of "''hi''" idle_engine constructor]
      line_routing [of "[escape_marker, CHR ''a'']" idle_engine constructor "CHR ''a''"]
      line_routing [of "[escape_marker]" idle_engine constructor]
    by (simp add: constructor_def)
  have q: "dispatch idle_engine [escape_marker, CHR ''q''] constructor = (Returned None, quit constructor)"
    using e line_routing [of "[escape_marker, CHR ''q'']" idle_engine constructor] by simp
  have h: "dispatch idle_engine [escape_marker, CHR ''?''] constructor = (Returned None, show_help constructor)"
    using e line_routing [of "[escape_marker, CHR ''?'']" idle_engine constructor] by simp
  have r: "dispatch idle_engine [escape_marker, CHR ''r''] constructor =
       returning (deferred (HandleParsedCommand []) NoCallback constructor)"
    using e g line_routing [of "[escape_marker, CHR ''r'']" idle_engine constructor] by simp
  have t: "dispatch idle_engine [escape_marker, CHR ''t''] constructor =
       returning (deferred (HandleThingTalk []) NoCallback constructor)"
    using e g line_routing [of "[escape_marker, CHR ''t'']" idle_engine constructor] by simp
  have c: "dispatch idle_engine [escape_marker, CHR ''c''] constructor =
       returning (deferred (HandleParsedCommand (choice_answer [])) NoCallback constructor)"
    using e g line_routing [of "[escape_marker, CHR ''c'']" idle_engine constructor] by simp
  have a: "dispatch idle_engine [escape_marker, CHR ''a''] constructor =
       runAppCommand idle_engine (Str []) Undefined constructor"
    using e g line_routing [of "[escape_marker, CHR ''a'']" idle_engine constructor] by simp
  have d: "dispatch idle_engine [escape_marker, CHR ''d''] constructor =
       runDeviceCommand idle_engine (Str []) Undefined constructor"
    using e g line_routing [of "[escape_marker, CHR ''d'']" idle_engine constructor] by simp
  have m: "dispatch idle_engine [escape_marker, CHR ''m''] constructor =
       runMessagingCommand idle_engine (Str []) Undefined constructor"
    using e g line_routing [of "[escape_marker, CHR ''m'']" idle_engine constructor] by simp
  have p: "dispatch idle_engine [escape_marker, CHR ''p''] constructor =
       runPermissionCommand idle_engine (Str []) Undefined constructor"
    using e g line_routing [of "[escape_marker, CHR ''p'']" idle_engine constructor] by simp
  have l: "dispatch idle_engine [escape_marker, CHR ''l''] constructor = testLog constructor"
    using e line_routing [of "[escape_marker, CHR ''l'']" idle_engine constructor] by simp
  show ?thesis
    using base e v q h r t c a d m p l by simp
qed

text \<open>
  Claim C8, as stated, fails: \<open>parseInt\<close> yields a double, and not every integer is
  one. \<open>choice 10000000000000001\<close> forwards the answer with value
  \<open>10000000000000000\<close>, which is not the serialization of the answer for the number
  typed.
\<close>

theorem choice_beyond_double_precision:
  "dispatch idle_engine (escape_marker # ''c 10000000000000001'') constructor =
     (Returned (Some 0),
      constructor\<lparr>trace := [Call (HandleParsedCommand (choice_json 10000000000000000))],
        tasks := [\<lparr>callback = NoCallback, chain_end = Dropped, pending = True\<rparr>]\<rparr>)
   \<and> choice_json 10000000000000000 \<noteq> choice_json 10000000000000001"
proof -
  have b: "bit_length 10000000000000001 = 54" "bit_length 10000000000000000 = 54"
    "bit_length 20000000000000000 = 55"
    by (simp_all add: bit_length.simps)
  have r: "round_double 10000000000000001 = 10000000000000000"
    "round_double 10000000000000000 = 10000000000000000"
    "round_double 20000000000000000 = 20000000000000000"
    by (simp_all add: round_double_def b)
  have p: "parseInt ''10000000000000001'' = Finite 10000000000000000"
    by (simp add: parseInt_def is_white_space_def strip_sign_def strip_prefix_def is_digit_def
        digit_of_def digits_value_def to_number_def r)
  have s: "show_nat 10000000000000000 = ''10000000000000000''"
    "show_nat 10000000000000001 = ''10000000000000001''"
    by (simp_all add: show_nat.simps digit_char_def)
  have c: "candidates 10000000000000000 (Suc 0) = [10000000000000000]"
    by (simp add: candidates_def s r)
  have sf: "shortest_from 10000000000000000 1 = 10000000000000000"
    by (subst shortest_from.simps) (simp add: s c)
  have n: "nat_to_string 10000000000000000 = ''10000000000000000''"
    unfolding nat_to_string_def shortest_decimal_def sf by (simp add: s)
  have a: "choice_answer ''10000000000000001'' = choice_json 10000000000000000"
    by (simp add: choice_answer_def choice_json_def dq_def quote_def escape_char_def
        escape_marker_def p n show_int_def s)
  have d: "choice_json 10000000000000000 \<noteq> choice_json 10000000000000001"
    by (simp add: choice_json_def show_int_def s)
  show ?thesis
    using d by (simp add: dispatch_def classify_def char_at_def substr_def a
        emit_def deferred_def returning_def constructor_def)
qed

text \<open>
  Claim C8, amended. For every integer \<open>N\<close> of magnitude below \<open>2 ^ 53\<close>, written
  in decimal after the verb letter and one separating character, the choice command
  forwards to \<open>handleParsedCommand\<close> exactly the serialization of
  \<open>{answer: {type: "Choice", value: N}}\<close>, and returns the deferred result of that
  call.
\<close>

theorem choice_forwards_json:
  "\<bar>N\<bar> < 2 ^ 53 \<Longrightarrow>
   dispatch env (escape_marker # CHR ''c'' # sep # show_int N) s =
     (Returned (Some (length (tasks s))),
      s\<lparr>trace := trace s @ [Call (HandleParsedCommand (choice_json N))],
        tasks := tasks s @ [\<lparr>callback = NoCallback, chain_end = Dropped, pending = True\<rparr>]\<rparr>)"
  by (simp add: dispatch_def classify_def char_at_def substr_def choice_answer_exact
      emit_def deferred_def returning_def)

theorem choice_forwards_json_witness:
  "\<bar>3 :: int\<bar> < 2 ^ 53
   \<and> dispatch idle_engine (escape_marker # ''c 3'') constructor =
     (Returned (Some 0),
      constructor\<lparr>trace := [Call (HandleParsedCommand
          (''{'' @ dq ''answer'' @ '':{'' @ dq ''type'' @ '':'' @ dq ''Choice'' @ '','' @ dq ''value'' @ '':3}}''))],
        tasks := [\<lparr>callback = NoCallback, chain_end = Dropped, pending = True\<rparr>]\<rparr>)"
proof -
  have s: "show_int 3 = ''3''"
    by (simp add: show_int_def show_nat.simps [of 3] digit_char_def)
  have c: "tasks constructor = []" "trace constructor = []" by (simp_all add: constructor_def)
  show ?thesis
    using choice_forwards_json [of 3 idle_engine "CHR '' ''" constructor]
    by (simp add: s c choice_json_def)
qed

text \<open>
  Claim C9. \<open>app stop\<close> asks the app manager for the app. When there is none it
  prints \<open>No app with ID\<close> followed by the id and does nothing else: \<open>removeApp\<close> is
  not called and the rest of the state is unchanged. When there is one it calls
  \<open>removeApp\<close> on that app. The line \<open>\a stop id\<close>, for an id without a space, runs
  this handler with that id.
\<close>

theorem app_stop_by_id:
  "(getApp env param = None \<longrightarrow>
      runAppCommand env (Str ''stop'') param s =
        (Returned None,
         s\<lparr>trace := trace s @ [Call (GetApp param), Print (''No app with ID '' @ to_string param)]\<rparr>))
   \<and> (getApp env param = Some a \<longrightarrow>
      runAppCommand env (Str ''stop'') param s =
        (Returned None, s\<lparr>trace := trace s @ [Call (GetApp param), Call (RemoveApp a)]\<rparr>))
   \<and> (CHR '' '' \<notin> set ident \<longrightarrow>
      dispatch env (command_line CHR ''a'' ''stop'' ident) s =
        runAppCommand env (Str ''stop'') (Str ident) s)"
proof -
  have a: "runAppCommand env (Str ''stop'') param s =
        (Returned None,
         s\<lparr>trace := trace s @ [Call (GetApp param), Print (''No app with ID '' @ to_string param)]\<rparr>)"
    if "getApp env param = None"
    using that by (simp add: runAppCommand_def handler_defs)
  have b: "runAppCommand env (Str ''stop'') param s =
        (Returned None, s\<lparr>trace := trace s @ [Call (GetApp param), Call (RemoveApp a)]\<rparr>)"
    if "getApp env param = Some a"
    using that by (simp add: runAppCommand_def handler_defs)
  have c: "dispatch env (command_line CHR ''a'' ''stop'' ident) s =
        runAppCommand env (Str ''stop'') (Str ident) s"
    if "CHR '' '' \<notin> set ident"
    using that by (simp add: dispatch_app_line)
  from a b c show ?thesis by blast
qed

theorem app_stop_by_id_witness:
  "getApp idle_engine (Str ''x'') = None
   \<and> CHR '' '' \<notin> set ''x''
   \<and> dispatch idle_engine (command_line CHR ''a'' ''stop'' ''x'') constructor =
       (Returned None,
        constructor\<lparr>trace := [Call (GetApp (Str ''x'')), Print ''No app with ID x'']\<rparr>)
   \<and> getApp (idle_engine\<lparr>getApp := \<lambda>p. Some \<lparr>app_uniqueId = ''x'', app_name = ''n'', app_description = ''d''\<rparr>\<rparr>) (Str ''x'')
       = Some \<lparr>app_uniqueId = ''x'', app_name = ''n'', app_description = ''d''\<rparr>
   \<and> dispatch (idle_engine\<lparr>getApp := \<lambda>p. Some \<lparr>app_uniqueId = ''x'', app_name = ''n'', app_description = ''d''\<rparr>\<rparr>)
         (command_line CHR ''a'' ''stop'' ''x'') constructor =
       (Returned None,
        constructor\<lparr>trace := [Call (GetApp (Str ''x'')),
           Call (RemoveApp \<lparr>app_uniqueId = ''x'', app_name = ''n'', app_description = ''d''\<rparr>)]\<rparr>)"
proof -
  have n: "getApp idle_engine (Str ''x'') = None" by (simp add: idle_engine_def)
  have c: "trace constructor = []" by (simp add: constructor_def)
  show ?thesis
    using n app_stop_by_id [of idle_engine "Str ''x''" constructor
        "\<lparr>app_uniqueId = ''x'', app_name = ''n'', app_description = ''d''\<rparr>" "''x''"]
      app_stop_by_id [of "idle_engine\<lparr>getApp := \<lambda>p. Some \<lparr>app_uniqueId = ''x'', app_name = ''n'', app_description = ''d''\<rparr>\<rparr>"
        "Str ''x''" constructor "\<lparr>app_uniqueId = ''x'', app_name = ''n'', app_description = ''d''\<rparr>" "''x''"]
    by (simp add: c)
qed

text \<open>
  Claim C10. Among all lines only those whose first two characters are the escape
  marker and \<open>?\<close> reach the help handler. An escape line whose second character is
  \<open>h\<close> is routed to the unknown-command branch and prints \<open>Unknown command h\<close>,
  although the help text lists \<open>\h\<close> next to \<open>\?\<close>: the second disjunct of the help
  test compares the whole line with \<open>h\<close>, which no line starting with the escape
  marker equals.
\<close>

theorem help_only_by_question_mark:
  "(classify line = Meta Help \<longleftrightarrow>
      char_at line 0 = Some escape_marker \<and> char_at line 1 = Some CHR ''?'')
   \<and> (char_at line 0 = Some escape_marker \<and> char_at line 1 = Some CHR ''h'' \<longrightarrow>
        classify line = UnknownCommand (Some CHR ''h'')
        \<and> dispatch env line s = (Returned None, console_log ''Unknown command h'' s))
   \<and> (escape_marker # ''? or '' @ escape_marker # ''h : show this help'') \<in> set help_text"
proof -
  have a: "classify line = Meta Help \<longleftrightarrow>
      char_at line 0 = Some escape_marker \<and> char_at line 1 = Some CHR ''?''"
    using escape_line_is_not_h [of line] by (simp add: classify_def)
  have b: "classify line = UnknownCommand (Some CHR ''h'')"
    if "char_at line 0 = Some escape_marker" "char_at line 1 = Some CHR ''h''"
    using that escape_line_is_not_h [of line] by (simp add: classify_def)
  have c: "(escape_marker # ''? or '' @ escape_marker # ''h : show this help'') \<in> set help_text"
    by (simp add: help_text_def)
  from a b c show ?thesis by (simp add: dispatch_def)
qed

theorem help_only_by_question_mark_witness:
  "char_at [escape_marker, CHR ''h''] 0 = Some escape_marker
   \<and> char_at [escape_marker, CHR ''h''] 1 = Some CHR ''h''
   \<and> classify [escape_marker, CHR ''h''] = UnknownCommand (Some CHR ''h'')
   \<and> dispatch idle_engine [escape_marker, CHR ''h''] constructor
       = (Returned None, console_log ''Unknown command h'' constructor)"
  using help_only_by_question_mark [of "[escape_marker, CHR ''h'']" idle_engine constructor]
  by (simp add: char_at_def)

end
